theory Spec2Isabelle
  imports Main "HOL-Library.Sublist" "HOL-Library.AList" "HOL-Library.Log_Nat"
begin

section \<open>The installer \<^verbatim>\<open>code_execution_api_installer.py\<close> as a state-passing program\<close>

text \<open>
  The installer is a sequential Python script whose behaviour is decided by what its
  surroundings answer: the privilege query, the registry, the network, the child
  processes, the operator at the console and the file system.  The embedding keeps the
  two apart.

  \<^item> Everything the script cannot influence is a field of the record \<open>world\<close>: one
    answer per external call, so a theorem over all worlds is a theorem over all
    outcomes of all calls.
  \<^item> Everything the script changes is a field of the record \<open>state\<close>: the console
    (every line printed, every prompt, every external call, in order), the directory
    \<^verbatim>\<open>tempfile.gettempdir()\<close>, the installation directory, and \<^verbatim>\<open>os.environ["PATH"]\<close>.
  \<^item> A Python function is a function from the state to a result and a new state.  The
    result is \<open>Inl e\<close> when the exception \<open>e\<close> leaves the function and \<open>Inr v\<close> when it
    returns \<open>v\<close>.
\<close>

subsection \<open>Exceptions\<close>

text \<open>
  The exception classes the script can meet, with the two class tests its handlers use:
  \<^verbatim>\<open>except Exception\<close> (everything but \<^verbatim>\<open>SystemExit\<close> and \<^verbatim>\<open>KeyboardInterrupt\<close>) and
  \<^verbatim>\<open>except WindowsError\<close> (\<^verbatim>\<open>OSError\<close> and its subclasses, to which \<^verbatim>\<open>URLError\<close> and
  \<^verbatim>\<open>HTTPError\<close> belong).  A bare \<^verbatim>\<open>except:\<close> catches all of them.
\<close>

datatype exn =
    SystemExit int
  | KeyboardInterrupt
  | OSError string
  | URLError string
  | HTTPError string
  | BadZipFile string
  | OverflowError string
  | ZeroDivisionError string
  | OtherException string

fun isinstance_Exception :: "exn \<Rightarrow> bool" where
  "isinstance_Exception (SystemExit _) = False"
| "isinstance_Exception KeyboardInterrupt = False"
| "isinstance_Exception _ = True"

fun isinstance_OSError :: "exn \<Rightarrow> bool" where
  "isinstance_OSError (OSError _) = True"
| "isinstance_OSError (URLError _) = True"
| "isinstance_OSError (HTTPError _) = True"
| "isinstance_OSError _ = False"

definition catch_all :: "exn \<Rightarrow> bool" where
  "catch_all e = True"

subsection \<open>Decimal numerals and a few characters\<close>

fun str_nat :: "nat \<Rightarrow> string" where
  "str_nat n =
     (if n < 10 then [''0123456789'' ! n]
      else str_nat (n div 10) @ [''0123456789'' ! (n mod 10)])"

declare str_nat.simps [simp del]

definition str_int :: "int \<Rightarrow> string" where
  "str_int i = (if i < 0 then ''-'' @ str_nat (nat (- i)) else str_nat (nat i))"

definition backslash :: string where
  "backslash = [CHR 0x5C]"

definition dquote :: string where
  "dquote = [CHR 0x22]"

definition newline :: string where
  "newline = [CHR 0x0A]"

definition carriage_return :: string where
  "carriage_return = [CHR 0x0D]"

fun str_exn :: "exn \<Rightarrow> string" where
  "str_exn (SystemExit n) = str_int n"
| "str_exn KeyboardInterrupt = []"
| "str_exn (OSError m) = m"
| "str_exn (URLError m) = m"
| "str_exn (HTTPError m) = m"
| "str_exn (BadZipFile m) = m"
| "str_exn (OverflowError m) = m"
| "str_exn (ZeroDivisionError m) = m"
| "str_exn (OtherException m) = m"

subsection \<open>The console\<close>

text \<open>
  The console records, in order, what the script does that an observer can see.
  \<open>Enter f\<close> marks the entry into the function \<open>f\<close> of the script: it is the only event
  that has no statement of its own in the source, and it is what ``\<open>f\<close> is invoked''
  means below.
\<close>

datatype event =
    Enter string
  | Print string
  | StdoutWrite string
  | Input string
  | Run bool "string list"
  | ShellExecute string string string
  | Retrieve string string
  | Chdir string

subsection \<open>The file system\<close>

text \<open>
  A directory is a list of named nodes; a node is a file with its bytes or a directory.
  Names are compared as written.
\<close>

datatype node = File string | Dir "(string \<times> node) list"

type_synonym entries = "(string \<times> node) list"

fun tree_lookup :: "entries \<Rightarrow> string list \<Rightarrow> node option" where
  "tree_lookup es [] = Some (Dir es)"
| "tree_lookup es (c # cs) =
     (case map_of es c of
        None \<Rightarrow> None
      | Some (File d) \<Rightarrow> (if cs = [] then Some (File d) else None)
      | Some (Dir ks) \<Rightarrow> tree_lookup ks cs)"

text \<open>\<^verbatim>\<open>os.makedirs(p, exist_ok=True)\<close> below a directory: \<open>None\<close> when a file is in the way.\<close>

fun tree_mkdirs :: "string list \<Rightarrow> entries \<Rightarrow> entries option" where
  "tree_mkdirs [] es = Some es"
| "tree_mkdirs (c # cs) es =
     (case map_of es c of
        None \<Rightarrow> map_option (\<lambda>ks. es @ [(c, Dir ks)]) (tree_mkdirs cs [])
      | Some (File d) \<Rightarrow> None
      | Some (Dir ks) \<Rightarrow> map_option (\<lambda>ks'. AList.update c (Dir ks') es) (tree_mkdirs cs ks))"

text \<open>
  \<^verbatim>\<open>open(p, "wb").write(data)\<close>: the parent must be a directory and \<open>p\<close> must not be one;
  an existing file is overwritten.
\<close>

fun tree_put_file :: "string list \<Rightarrow> string \<Rightarrow> entries \<Rightarrow> entries option" where
  "tree_put_file [] data es = None"
| "tree_put_file [c] data es =
     (case map_of es c of
        Some (Dir ks) \<Rightarrow> None
      | _ \<Rightarrow> Some (AList.update c (File data) es))"
| "tree_put_file (c # cs) data es =
     (case map_of es c of
        Some (Dir ks) \<Rightarrow> map_option (\<lambda>ks'. AList.update c (Dir ks') es) (tree_put_file cs data ks)
      | _ \<Rightarrow> None)"

text \<open>Removing the node at a path (a file, or a directory with all it holds).\<close>

fun tree_remove :: "string list \<Rightarrow> entries \<Rightarrow> entries option" where
  "tree_remove [] es = None"
| "tree_remove [c] es =
     (case map_of es c of None \<Rightarrow> None | Some n \<Rightarrow> Some (AList.delete c es))"
| "tree_remove (c # cs) es =
     (case map_of es c of
        Some (Dir ks) \<Rightarrow> map_option (\<lambda>ks'. AList.update c (Dir ks') es) (tree_remove cs ks)
      | _ \<Rightarrow> None)"

subsection \<open>The world and the state\<close>

text \<open>
  \<open>completed\<close> is \<^verbatim>\<open>subprocess.CompletedProcess\<close>.  \<open>fetch\<close> is one run of
  \<^verbatim>\<open>urllib.request.urlretrieve\<close>: the calls of the report hook it makes, the bytes it
  leaves in the destination file (\<open>None\<close> when it never opens the file), and the
  exception it ends with (\<open>None\<close> when it returns).
\<close>

record completed =
  returncode :: int
  stdout :: string
  stderr :: string

record fetch =
  callbacks :: "(int \<times> int \<times> int) list"
  written :: "string option"
  failure :: "exn option"

record world =
  IsUserAnAdmin :: "exn + int"
  ShellExecuteW :: "string \<Rightarrow> string \<Rightarrow> string \<Rightarrow> exn + int"
  sys_executable :: string
  sys_argv :: "string list"
  environ_PROGRAMDATA :: string
  environ_USERPROFILE :: string
  gettempdir :: string
  urlretrieve :: "string \<Rightarrow> fetch"
  winreg_lookup :: "string \<Rightarrow> string option"
  subprocess_outcome :: "bool \<Rightarrow> string list \<Rightarrow> exn + completed"
  input_reply :: "string \<Rightarrow> string"
  zip_decode :: "string \<Rightarrow> (string \<times> string) list option"

record state =
  console :: "event list"
  tempfs :: entries
  installdir :: "node option"
  environ_PATH :: string

subsection \<open>Sequencing, exceptions and handlers\<close>

type_synonym 'a prog = "state \<Rightarrow> (exn + 'a) \<times> state"

definition ret :: "'a \<Rightarrow> 'a prog" where
  "ret v s = (Inr v, s)"

definition raise :: "exn \<Rightarrow> 'a prog" where
  "raise e s = (Inl e, s)"

definition bind :: "'a prog \<Rightarrow> ('a \<Rightarrow> 'b prog) \<Rightarrow> 'b prog" where
  "bind m f s = (case m s of (Inl e, s') \<Rightarrow> (Inl e, s') | (Inr v, s') \<Rightarrow> f v s')"

definition seq :: "unit prog \<Rightarrow> 'b prog \<Rightarrow> 'b prog" where
  "seq m n = bind m (\<lambda>_. n)"

text \<open>
  \<^verbatim>\<open>try: body  except C: handler\<close>, where \<open>catches\<close> is the class test of \<open>C\<close>.  What the
  body did to the state before it raised stays done.
\<close>

definition try_except :: "'a prog \<Rightarrow> (exn \<Rightarrow> bool) \<Rightarrow> (exn \<Rightarrow> 'a prog) \<Rightarrow> 'a prog" where
  "try_except body catches handler s =
     (case body s of
        (Inl e, s') \<Rightarrow> (if catches e then handler e s' else (Inl e, s'))
      | (Inr v, s') \<Rightarrow> (Inr v, s'))"

fun for_each :: "'a list \<Rightarrow> ('a \<Rightarrow> unit prog) \<Rightarrow> unit prog" where
  "for_each [] body = ret ()"
| "for_each (x # xs) body = seq (body x) (for_each xs body)"

definition emit :: "event \<Rightarrow> unit prog" where
  "emit e s = (Inr (), s\<lparr>console := console s @ [e]\<rparr>)"

definition print :: "string \<Rightarrow> unit prog" where
  "print line = emit (Print line)"

definition sys_stdout_write :: "string \<Rightarrow> unit prog" where
  "sys_stdout_write text = emit (StdoutWrite text)"

definition input :: "world \<Rightarrow> string \<Rightarrow> string prog" where
  "input w prompt = seq (emit (Input prompt)) (ret (input_reply w prompt))"

definition subprocess_run :: "world \<Rightarrow> bool \<Rightarrow> string list \<Rightarrow> completed prog" where
  "subprocess_run w shell args =
     seq (emit (Run shell args))
       (case subprocess_outcome w shell args of
          Inl e \<Rightarrow> raise e
        | Inr result \<Rightarrow> ret result)"


definition enter :: "string \<Rightarrow> unit prog" where
  "enter f = emit (Enter f)"

subsection \<open>Python floats\<close>

text \<open>
  A Python \<^verbatim>\<open>float\<close> is an IEEE 754 double: a rational with a 53-bit significand, an
  exponent of at least \<open>-1074\<close> for its last bit, and a magnitude below \<open>2 ^ 1024\<close>.
  \<open>float_round\<close> is rounding to the nearest such number, ties to the even significand,
  before the magnitude check; \<open>int_true_div\<close> is \<^verbatim>\<open>a / b\<close> on two Python integers, which
  rounds the exact quotient once and raises \<^verbatim>\<open>OverflowError\<close> when the result is too large.
\<close>

definition round_half_even :: "rat \<Rightarrow> int" where
  "round_half_even x =
     (let f = \<lfloor>x\<rfloor>; d = x - of_int f in
      if d < 1 / 2 then f
      else if 1 / 2 < d then f + 1
      else if even f then f else f + 1)"

definition floor_log2 :: "rat \<Rightarrow> int" where
  "floor_log2 x =
     (if 1 \<le> x then int (floorlog 2 (nat \<lfloor>x\<rfloor>)) - 1
      else - int (floorlog 2 (nat (\<lceil>1 / x\<rceil> - 1))))"

definition float_round :: "rat \<Rightarrow> rat" where
  "float_round x =
     (if x = 0 then 0
      else let e = max (floor_log2 \<bar>x\<bar> - 52) (- 1074)
           in of_int (round_half_even (x / 2 powi e)) * 2 powi e)"

definition int_true_div :: "int \<Rightarrow> int \<Rightarrow> exn + rat" where
  "int_true_div a b =
     (if b = 0 then Inl (ZeroDivisionError ''division by zero'')
      else let q = float_round (of_int a / of_int b)
           in if 2 ^ 1024 \<le> \<bar>q\<bar>
              then Inl (OverflowError ''integer division result too large for a float'')
              else Inr q)"

text \<open>\<^verbatim>\<open>int(x)\<close> on a float truncates towards zero.\<close>

definition int_of_float :: "rat \<Rightarrow> int" where
  "int_of_float x = (if x < 0 then - \<lfloor>- x\<rfloor> else \<lfloor>x\<rfloor>)"

text \<open>
  \<^verbatim>\<open>f"{x:.1f}"\<close>: the decimal numeral with one digit after the point that is nearest to
  the float's exact value (ties to even), with the sign of the float.  \<open>tenths\<close> is that
  numeral as a number of tenths.
\<close>

definition tenths :: "rat \<Rightarrow> int" where
  "tenths x = round_half_even (\<bar>x\<bar> * 10)"

definition format_1f :: "rat \<Rightarrow> string" where
  "format_1f x =
     (if x < 0 then ''-'' else []) @
     str_nat (nat (tenths x div 10)) @ ''.'' @ str_nat (nat (tenths x mod 10))"

subsection \<open>\<^verbatim>\<open>download_file\<close> and its report hook\<close>

definition report_progress :: "int \<Rightarrow> int \<Rightarrow> int \<Rightarrow> unit prog" where
  "report_progress blocknum blocksize totalsize =
     (let readsofar = blocknum * blocksize in
      if totalsize > 0 then
        (case int_true_div (readsofar * 100) totalsize of
           Inl e \<Rightarrow> raise e
         | Inr percent \<Rightarrow>
             (let progress = int_of_float (float_round (percent / 2)) in
              seq (sys_stdout_write
                     (carriage_return @ ''['' @ replicate (nat progress) CHR ''#'' @
                      replicate (nat (50 - progress)) CHR '' '' @ ''] '' @
                      format_1f percent @ ''%''))
                  (if readsofar \<ge> totalsize then sys_stdout_write newline else ret ())))
      else sys_stdout_write (carriage_return @ ''Read '' @ str_int readsofar @ '' bytes''))"

text \<open>
  \<^verbatim>\<open>os.path.join\<close> with a plain relative name as its second argument, which is all the
  script passes where the joined path is printed or handed to a child process.  A path
  below \<^verbatim>\<open>tempfile.gettempdir()\<close> is kept as the list of its components; \<open>temp_path\<close> is
  the string the script holds for it.
\<close>

definition os_path_join :: "string \<Rightarrow> string \<Rightarrow> string" where
  "os_path_join a b =
     (if a = [] \<or> last a \<in> {CHR 0x5C, CHR ''/'', CHR '':''} then a @ b
      else a @ backslash @ b)"

definition temp_path :: "world \<Rightarrow> string list \<Rightarrow> string" where
  "temp_path w p = foldl os_path_join (gettempdir w) p"

definition temp_write :: "string list \<Rightarrow> string \<Rightarrow> unit prog" where
  "temp_write p data s =
     (case tree_put_file p data (tempfs s) of
        None \<Rightarrow> (Inl (OSError ''cannot open the destination file''), s)
      | Some t \<Rightarrow> (Inr (), s\<lparr>tempfs := t\<rparr>))"

text \<open>
  \<^verbatim>\<open>urllib.request.urlretrieve(url, destination, reporthook)\<close>: the destination file is
  opened and filled, the hook is called as the world says, and the call ends as the
  world says.  An exception of the hook ends the call at once.
\<close>

definition urllib_request_urlretrieve ::
  "world \<Rightarrow> string \<Rightarrow> string list \<Rightarrow> (int \<Rightarrow> int \<Rightarrow> int \<Rightarrow> unit prog) \<Rightarrow> unit prog" where
  "urllib_request_urlretrieve w url destination reporthook =
     seq (emit (Retrieve url (temp_path w destination)))
    (seq (case written (urlretrieve w url) of
            None \<Rightarrow> ret ()
          | Some data \<Rightarrow> temp_write destination data)
    (seq (for_each (callbacks (urlretrieve w url))
            (\<lambda>(blocknum, blocksize, totalsize). reporthook blocknum blocksize totalsize))
         (case failure (urlretrieve w url) of
            None \<Rightarrow> ret ()
          | Some e \<Rightarrow> raise e)))"

definition download_file :: "world \<Rightarrow> string \<Rightarrow> string list \<Rightarrow> bool prog" where
  "download_file w url destination =
     seq (enter ''download_file'')
    (seq (print (''Downloading from '' @ url @ ''...''))
         (try_except
            (seq (urllib_request_urlretrieve w url destination report_progress)
            (seq (print (''Download completed to '' @ temp_path w destination))
                 (ret True)))
            isinstance_Exception
            (\<lambda>e. seq (print (''Error downloading file: '' @ str_exn e)) (ret False))))"

subsection \<open>The privilege gate\<close>

definition is_admin :: "world \<Rightarrow> int prog" where
  "is_admin w =
     seq (enter ''is_admin'')
         (try_except
            (case IsUserAnAdmin w of Inl e \<Rightarrow> raise e | Inr v \<Rightarrow> ret v)
            catch_all
            (\<lambda>e. ret 0))"

fun str_join :: "string \<Rightarrow> string list \<Rightarrow> string" where
  "str_join sep [] = []"
| "str_join sep [x] = x"
| "str_join sep (x # y # ys) = x @ sep @ str_join sep (y # ys)"

definition shell_execute :: "world \<Rightarrow> string \<Rightarrow> string \<Rightarrow> string \<Rightarrow> int prog" where
  "shell_execute w verb file params =
     seq (emit (ShellExecute verb file params))
         (case ShellExecuteW w verb file params of Inl e \<Rightarrow> raise e | Inr h \<Rightarrow> ret h)"

definition sys_exit :: "int \<Rightarrow> unit prog" where
  "sys_exit code = raise (SystemExit code)"

definition restart_as_admin :: "world \<Rightarrow> unit prog" where
  "restart_as_admin w =
     seq (enter ''restart_as_admin'')
         (bind (shell_execute w ''runas'' (sys_executable w) (str_join '' '' (sys_argv w)))
            (\<lambda>_. sys_exit 0))"

definition print_header :: "string \<Rightarrow> unit prog" where
  "print_header message =
     (let border = replicate (length message + 4) CHR ''='' in
      seq (print (newline @ border))
     (seq (print (''  '' @ message))
          (print (border @ newline))))"

subsection \<open>The prerequisite probes\<close>

definition winreg_OpenKey :: "world \<Rightarrow> string \<Rightarrow> unit prog" where
  "winreg_OpenKey w sub_key =
     (case winreg_lookup w sub_key of
        None \<Rightarrow> ret ()
      | Some msg \<Rightarrow> raise (OSError msg))"

definition check_docker_installed :: "world \<Rightarrow> bool prog" where
  "check_docker_installed w =
     seq (enter ''check_docker_installed'')
         (try_except
            (seq (winreg_OpenKey w
                    (''SOFTWARE'' @ backslash @ ''Docker Inc.'' @ backslash @ ''Docker Desktop''))
                 (ret True))
            isinstance_OSError
            (\<lambda>e. ret False))"

definition check_conda_installed :: "world \<Rightarrow> bool prog" where
  "check_conda_installed w =
     seq (enter ''check_conda_installed'')
         (try_except
            (bind (subprocess_run w True [''conda'', ''--version''])
               (\<lambda>result. ret (returncode result = 0)))
            catch_all
            (\<lambda>e. ret False))"


subsection \<open>Configuration\<close>

definition PROJECT_ZIP_URL :: string where
  "PROJECT_ZIP_URL =
     ''https://github.com/SohamMhatre09/Code-Execution-API/archive/refs/heads/main.zip''"

definition DOCKER_INSTALLER_URL :: string where
  "DOCKER_INSTALLER_URL =
     ''https://desktop.docker.com/win/stable/Docker%20Desktop%20Installer.exe''"

definition MINICONDA_INSTALLER_URL :: string where
  "MINICONDA_INSTALLER_URL =
     ''https://repo.anaconda.com/miniconda/Miniconda3-latest-Windows-x86_64.exe''"

definition INSTALL_DIR :: "world \<Rightarrow> string" where
  "INSTALL_DIR w = os_path_join (environ_PROGRAMDATA w) ''CodeExecutionAPI''"

subsection \<open>The remediation installers\<close>

definition install_docker :: "world \<Rightarrow> bool prog" where
  "install_docker w =
     seq (enter ''install_docker'')
    (seq (print_header ''Installing Docker Desktop'')
    (let docker_installer = [''DockerDesktopInstaller.exe''] in
     bind (download_file w DOCKER_INSTALLER_URL docker_installer) (\<lambda>downloaded.
       if downloaded then
         seq (print ''Running Docker Desktop installer...'')
        (bind (subprocess_run w False [temp_path w docker_installer, ''install'', ''--quiet''])
           (\<lambda>result.
              if returncode result = 0 then
                seq (print ''Docker Desktop installation completed successfully!'')
                    (ret True)
              else
                seq (print (''Docker Desktop installation failed: '' @ stderr result))
               (seq (print (''Please install Docker Desktop manually from '' @
                            ''https://www.docker.com/products/docker-desktop''))
               (bind (input w
                        ''Press Enter to continue after installing Docker Desktop manually...'')
                  (\<lambda>_. ret False)))))
       else ret False)))"

definition install_miniconda :: "world \<Rightarrow> bool prog" where
  "install_miniconda w =
     seq (enter ''install_miniconda'')
    (seq (print_header ''Installing Miniconda'')
    (let miniconda_installer = [''Miniconda3_Installer.exe''] in
     bind (download_file w MINICONDA_INSTALLER_URL miniconda_installer) (\<lambda>downloaded.
       if downloaded then
         seq (print ''Running Miniconda installer...'')
        (bind (subprocess_run w False
                 [temp_path w miniconda_installer, ''/InstallationType=JustMe'',
                  ''/RegisterPython=0'', ''/S'',
                  ''/D=%UserProfile%'' @ backslash @ ''Miniconda3''])
           (\<lambda>result.
              if returncode result = 0 then
                seq (print ''Miniconda installation completed successfully!'')
               (seq (\<lambda>s. (Inr (),
                       s\<lparr>environ_PATH :=
                           os_path_join (environ_USERPROFILE w) ''Miniconda3'' @ '';'' @
                           os_path_join (os_path_join (environ_USERPROFILE w) ''Miniconda3'')
                             ''Scripts'' @ '';'' @
                           environ_PATH s\<rparr>))
                    (ret True))
              else
                seq (print (''Miniconda installation failed: '' @ stderr result))
               (seq (print (''Please install Miniconda manually from '' @
                            ''https://docs.conda.io/en/latest/miniconda.html''))
               (bind (input w
                        ''Press Enter to continue after installing Miniconda manually...'')
                  (\<lambda>_. ret False)))))
       else ret False)))"

subsection \<open>The project materializer\<close>

text \<open>
  \<^verbatim>\<open>tempfile.mkdtemp()\<close> makes a directory in \<^verbatim>\<open>tempfile.gettempdir()\<close> under a name
  that is not in use.  Python draws the name at random; the model takes one that is
  longer than every name in use.
\<close>

definition fresh_name :: "string list \<Rightarrow> string" where
  "fresh_name used = ''tmp'' @ replicate (Suc (foldr max (map length used) 0)) CHR ''_''"

definition tempfile_mkdtemp :: "string prog" where
  "tempfile_mkdtemp s =
     (let name = fresh_name (map fst (tempfs s))
      in (Inr name, s\<lparr>tempfs := tempfs s @ [(name, Dir [])]\<rparr>))"

text \<open>\<^verbatim>\<open>os.makedirs(INSTALL_DIR, exist_ok=True)\<close>: only a file of that name is an error.\<close>

definition os_makedirs_install :: "unit prog" where
  "os_makedirs_install s =
     (case installdir s of
        None \<Rightarrow> (Inr (), s\<lparr>installdir := Some (Dir [])\<rparr>)
      | Some (Dir es) \<Rightarrow> (Inr (), s)
      | Some (File d) \<Rightarrow> (Inl (OSError ''Cannot create a file when that file already exists''), s))"

text \<open>
  \<^verbatim>\<open>zipfile.ZipFile(zip_path, 'r')\<close> reads the file and decodes it; the decoder is the
  world's.  A member of the archive is its name and its bytes, in the archive's order;
  \<^verbatim>\<open>namelist()\<close> is the names.
\<close>

definition zipfile_ZipFile :: "world \<Rightarrow> string list \<Rightarrow> (string \<times> string) list prog" where
  "zipfile_ZipFile w zip_path s =
     (case tree_lookup (tempfs s) zip_path of
        Some (File data) \<Rightarrow>
          (case zip_decode w data of
             None \<Rightarrow> (Inl (BadZipFile ''File is not a zip file''), s)
           | Some members \<Rightarrow> (Inr members, s))
      | _ \<Rightarrow> (Inl (OSError ''No such file or directory''), s))"

definition namelist :: "(string \<times> string) list \<Rightarrow> string list" where
  "namelist members = map fst members"

definition endswith_slash :: "string \<Rightarrow> bool" where
  "endswith_slash name = (name \<noteq> [] \<and> last name = CHR ''/'')"

text \<open>
  \<^verbatim>\<open>os.path.commonprefix\<close>: the longest string that is a prefix of every string of the
  list, character by character; the empty string for the empty list.
\<close>

fun common_prefix2 :: "string \<Rightarrow> string \<Rightarrow> string" where
  "common_prefix2 (x # xs) (y # ys) = (if x = y then x # common_prefix2 xs ys else [])"
| "common_prefix2 _ _ = []"

fun os_path_commonprefix :: "string list \<Rightarrow> string" where
  "os_path_commonprefix [] = []"
| "os_path_commonprefix [x] = x"
| "os_path_commonprefix (x # y # ys) = common_prefix2 x (os_path_commonprefix (y # ys))"

text \<open>
  Splitting a name at \<^verbatim>\<open>/\<close> and \<^verbatim>\<open>\\<close>.  \<open>split_at_seps cur name\<close> is the list of the parts,
  \<open>cur\<close> being the part read so far; a name that ends in a separator has a last part
  that is empty.
\<close>

definition is_sep :: "char \<Rightarrow> bool" where
  "is_sep c = (c = CHR ''/'' \<or> c = CHR 0x5C)"

fun split_at_seps :: "string \<Rightarrow> string \<Rightarrow> string list" where
  "split_at_seps cur [] = [cur]"
| "split_at_seps cur (c # cs) =
     (if is_sep c then cur # split_at_seps [] cs else split_at_seps (cur @ [c]) cs)"

text \<open>
  Where \<^verbatim>\<open>ZipFile.extractall\<close> puts a member on Windows: the name is split at the
  separators, the parts that are empty, \<^verbatim>\<open>.\<close> or \<^verbatim>\<open>..\<close> are dropped, the characters
  \<^verbatim>\<open>:<>|"?*\<close> become \<^verbatim>\<open>_\<close>, trailing dots of a part are removed, and parts that are empty
  by now are dropped.  (A drive or UNC prefix of a member name is not modelled.)
\<close>

definition sanitize_char :: "char \<Rightarrow> char" where
  "sanitize_char c = (if c \<in> set ('':<>|?*'' @ dquote) then CHR ''_'' else c)"

definition rstrip_dots :: "string \<Rightarrow> string" where
  "rstrip_dots part = rev (dropWhile (\<lambda>c. c = CHR ''.'') (rev part))"

definition member_parts :: "string \<Rightarrow> string list" where
  "member_parts name =
     filter (\<lambda>part. part \<noteq> [])
       (map (\<lambda>part. rstrip_dots (map sanitize_char part))
          (filter (\<lambda>part. part \<noteq> [] \<and> part \<noteq> ''.'' \<and> part \<noteq> ''..'') (split_at_seps [] name)))"

text \<open>
  One member extracted below the directory \<open>base\<close>: the directories above it are made
  when missing; a directory member is made unless it is there; a file member is written
  over whatever file is there.  \<open>None\<close> is an \<^verbatim>\<open>OSError\<close>.
\<close>

definition extract_member :: "string list \<Rightarrow> string \<times> string \<Rightarrow> entries \<Rightarrow> entries option" where
  "extract_member base member t =
     (let parts = member_parts (fst member) in
      if endswith_slash (fst member) then tree_mkdirs (base @ parts) t
      else
        (case tree_mkdirs (base @ butlast parts) t of
           None \<Rightarrow> None
         | Some t' \<Rightarrow> tree_put_file (base @ parts) (snd member) t'))"

definition zip_extract :: "string list \<Rightarrow> string \<times> string \<Rightarrow> unit prog" where
  "zip_extract base member s =
     (case extract_member base member (tempfs s) of
        None \<Rightarrow> (Inl (OSError ''cannot extract the member''), s)
      | Some t \<Rightarrow> (Inr (), s\<lparr>tempfs := t\<rparr>))"

definition zip_extractall :: "(string \<times> string) list \<Rightarrow> string list \<Rightarrow> unit prog" where
  "zip_extractall members base = for_each members (zip_extract base)"

text \<open>
  The path \<^verbatim>\<open>os.path.join(temp_dir, top_dir)\<close> as components below \<open>temp_dir\<close>.  A
  \<open>top_dir\<close> that is rooted, names a drive or steps up with \<^verbatim>\<open>..\<close> leads out of the
  scratch directory, where the model has no files: \<open>None\<close>.
\<close>

definition below_parts :: "string \<Rightarrow> string list option" where
  "below_parts p =
     (let parts = split_at_seps [] p in
      if (p \<noteq> [] \<and> is_sep (hd p)) \<or> CHR '':'' \<in> set p \<or> ''..'' \<in> set parts then None
      else Some (filter (\<lambda>part. part \<noteq> [] \<and> part \<noteq> ''.'') parts))"

definition os_listdir_temp :: "string list option \<Rightarrow> string list prog" where
  "os_listdir_temp p s =
     (case p of
        None \<Rightarrow> (Inl (OSError ''The system cannot find the path specified''), s)
      | Some q \<Rightarrow>
          (case tree_lookup (tempfs s) q of
             Some (Dir ks) \<Rightarrow> (Inr (map fst ks), s)
           | _ \<Rightarrow> (Inl (OSError ''The system cannot find the path specified''), s)))"

text \<open>The tests and removals of the loop, on \<^verbatim>\<open>os.path.join(INSTALL_DIR, item)\<close>.\<close>

definition install_entries :: "state \<Rightarrow> entries" where
  "install_entries s = (case installdir s of Some (Dir es) \<Rightarrow> es | _ \<Rightarrow> [])"

definition os_path_exists_install :: "string \<Rightarrow> bool prog" where
  "os_path_exists_install item s = (Inr (map_of (install_entries s) item \<noteq> None), s)"

definition os_path_isdir_install :: "string \<Rightarrow> bool prog" where
  "os_path_isdir_install item s =
     (Inr (case map_of (install_entries s) item of Some (Dir ks) \<Rightarrow> True | _ \<Rightarrow> False), s)"

definition shutil_rmtree_install :: "string \<Rightarrow> unit prog" where
  "shutil_rmtree_install item s =
     (case map_of (install_entries s) item of
        Some (Dir ks) \<Rightarrow> (Inr (), s\<lparr>installdir := Some (Dir (AList.delete item (install_entries s)))\<rparr>)
      | _ \<Rightarrow> (Inl (OSError ''The directory name is invalid''), s))"

definition os_remove_install :: "string \<Rightarrow> unit prog" where
  "os_remove_install item s =
     (case map_of (install_entries s) item of
        Some (File d) \<Rightarrow> (Inr (), s\<lparr>installdir := Some (Dir (AList.delete item (install_entries s)))\<rparr>)
      | _ \<Rightarrow> (Inl (OSError ''The system cannot find the file specified''), s))"

text \<open>
  \<^verbatim>\<open>shutil.move(source, dest)\<close> from the scratch directory to
  \<^verbatim>\<open>os.path.join(INSTALL_DIR, item)\<close>.  With nothing at the destination the source is
  renamed to it.  With a directory there the source is moved into it under its own name
  (an error when that name is taken); with a file there the rename fails on Windows and
  a source file is copied over it.
\<close>

definition shutil_move_install :: "string list option \<Rightarrow> string \<Rightarrow> unit prog" where
  "shutil_move_install source item s =
     (case source of
        None \<Rightarrow> (Inl (OSError ''The system cannot find the path specified''), s)
      | Some src \<Rightarrow>
     (case (tree_lookup (tempfs s) src, tree_remove src (tempfs s), installdir s) of
        (Some n, Some t, Some (Dir es)) \<Rightarrow>
          (case map_of es item of
             None \<Rightarrow> (Inr (), s\<lparr>tempfs := t, installdir := Some (Dir (es @ [(item, n)]))\<rparr>)
           | Some (Dir ks) \<Rightarrow>
               (case map_of ks (last src) of
                  None \<Rightarrow>
                    (Inr (), s\<lparr>tempfs := t,
                        installdir := Some (Dir (AList.update item (Dir (ks @ [(last src, n)])) es))\<rparr>)
                | Some k \<Rightarrow> (Inl (OSError ''Destination path already exists''), s))
           | Some (File d) \<Rightarrow>
               (case n of
                  File d' \<Rightarrow>
                    (Inr (), s\<lparr>tempfs := t, installdir := Some (Dir (AList.update item n es))\<rparr>)
                | Dir ks \<Rightarrow> (Inl (OSError ''Cannot create a file when that file already exists''), s)))
      | _ \<Rightarrow> (Inl (OSError ''The system cannot find the path specified''), s)))"

definition shutil_rmtree_temp :: "string \<Rightarrow> unit prog" where
  "shutil_rmtree_temp name s =
     (case map_of (tempfs s) name of
        Some (Dir ks) \<Rightarrow> (Inr (), s\<lparr>tempfs := AList.delete name (tempfs s)\<rparr>)
      | _ \<Rightarrow> (Inl (OSError ''The system cannot find the path specified''), s))"

definition move_item :: "string list option \<Rightarrow> string \<Rightarrow> unit prog" where
  "move_item extracted_dir item =
     seq (bind (os_path_exists_install item) (\<lambda>dest_exists.
            if dest_exists then
              bind (os_path_isdir_install item) (\<lambda>dest_isdir.
                if dest_isdir then shutil_rmtree_install item else os_remove_install item)
            else ret ()))
         (shutil_move_install (map_option (\<lambda>d. d @ [item]) extracted_dir) item)"

definition download_and_extract_project :: "world \<Rightarrow> bool prog" where
  "download_and_extract_project w =
     seq (enter ''download_and_extract_project'')
    (seq (print_header ''Downloading and Extracting Project Files'')
    (bind tempfile_mkdtemp (\<lambda>temp_dir.
     let zip_path = [temp_dir, ''code-execution-api.zip''] in
     bind (download_file w PROJECT_ZIP_URL zip_path) (\<lambda>downloaded.
       if \<not> downloaded then
         seq (print ''Failed to download project files. Aborting installation.'')
             (ret False)
       else
         seq os_makedirs_install
        (seq (print (''Extracting files to '' @ INSTALL_DIR w @ ''...''))
        (bind (zipfile_ZipFile w zip_path) (\<lambda>zip_ref.
         let top_dir = os_path_commonprefix (filter endswith_slash (namelist zip_ref)) in
         seq (zip_extractall zip_ref [temp_dir])
        (let extracted_dir = map_option (\<lambda>parts. temp_dir # parts) (below_parts top_dir) in
         bind (os_listdir_temp extracted_dir) (\<lambda>items.
         seq (for_each items (move_item extracted_dir))
        (seq (shutil_rmtree_temp temp_dir)
        (seq (print ''Project files extracted successfully!'')
             (ret True))))))))))))"


subsection \<open>The environment provisioner\<close>

definition ignore :: "'a prog \<Rightarrow> unit prog" where
  "ignore m = bind m (\<lambda>_. ret ())"

definition create_conda_environment :: "world \<Rightarrow> bool prog" where
  "create_conda_environment w =
     seq (enter ''create_conda_environment'')
    (seq (print_header ''Setting Up Python Environment'')
    (let env_name = ''code_execution_api'' in
     bind (subprocess_run w True [''conda'', ''env'', ''list'']) (\<lambda>result.
     seq (if sublist env_name (stdout result) then
            seq (print (''Conda environment '' @ [CHR 0x27] @ env_name @ [CHR 0x27] @
                        '' already exists. Updating...''))
                (ignore (subprocess_run w True
                   [''conda'', ''env'', ''update'', ''-n'', env_name, ''--file'',
                    os_path_join (INSTALL_DIR w) ''requirements.txt'']))
          else
            seq (print (''Creating conda environment '' @ [CHR 0x27] @ env_name @ [CHR 0x27] @
                        ''...''))
                (ignore (subprocess_run w True
                   [''conda'', ''create'', ''-n'', env_name, ''python=3.11'', ''-y''])))
    (seq (print ''Installing project dependencies...'')
    (seq (ignore (subprocess_run w True
            [''conda'', ''run'', ''-n'', env_name, ''pip'', ''install'', ''-r'',
             os_path_join (INSTALL_DIR w) ''requirements.txt'']))
    (seq (print ''Python environment setup completed successfully!'')
         (ret True)))))))"

subsection \<open>The launcher script generator\<close>

text \<open>
  \<^verbatim>\<open>open(path, "w")\<close> with the \<^verbatim>\<open>write\<close> calls that follow, as one step: the file holds the
  text written, each \<^verbatim>\<open>\n\<close> stored as \<^verbatim>\<open>\r\n\<close> as text mode does on Windows.
\<close>

definition text_mode :: "string \<Rightarrow> string" where
  "text_mode t = concat (map (\<lambda>c. if c = CHR 0x0A then [CHR 0x0D, CHR 0x0A] else [c]) t)"

definition install_write_text :: "string \<Rightarrow> string \<Rightarrow> unit prog" where
  "install_write_text name t s =
     (case installdir s of
        Some (Dir es) \<Rightarrow>
          (case map_of es name of
             Some (Dir ks) \<Rightarrow> (Inl (OSError ''Permission denied''), s)
           | _ \<Rightarrow> (Inr (), s\<lparr>installdir := Some (Dir (AList.update name (File (text_mode t)) es))\<rparr>))
      | _ \<Rightarrow> (Inl (OSError ''No such file or directory''), s))"

definition os_remove_temp :: "string list \<Rightarrow> unit prog" where
  "os_remove_temp p s =
     (case (tree_lookup (tempfs s) p, tree_remove p (tempfs s)) of
        (Some (File d), Some t) \<Rightarrow> (Inr (), s\<lparr>tempfs := t\<rparr>)
      | _ \<Rightarrow> (Inl (OSError ''The system cannot find the file specified''), s))"

definition create_startup_scripts :: "world \<Rightarrow> bool prog" where
  "create_startup_scripts w =
     seq (enter ''create_startup_scripts'')
    (seq (print_header ''Creating Startup Scripts'')
    (let start_script = os_path_join (INSTALL_DIR w) ''start_api.bat'';
         stop_script = os_path_join (INSTALL_DIR w) ''stop_api.bat'';
         desktop_path = os_path_join (environ_USERPROFILE w) ''Desktop'';
         shortcut_path = os_path_join desktop_path ''Code Execution API.lnk'';
         vbs_script = [''create_shortcut.vbs'']
     in
     seq (install_write_text ''start_api.bat''
            (''@echo off'' @ newline @
             ''echo Starting Code Execution API...'' @ newline @
             ''cd /d '' @ INSTALL_DIR w @ newline @
             ''docker-compose up -d'' @ newline @
             ''echo API is running at http://localhost:8000'' @ newline @
             ''start http://localhost:8000'' @ newline @
             ''pause'' @ newline))
    (seq (install_write_text ''stop_api.bat''
            (''@echo off'' @ newline @
             ''echo Stopping Code Execution API...'' @ newline @
             ''cd /d '' @ INSTALL_DIR w @ newline @
             ''docker-compose down'' @ newline @
             ''echo API has been stopped.'' @ newline @
             ''pause'' @ newline))
    (seq (temp_write vbs_script
            (text_mode
              (''Set oWS = WScript.CreateObject('' @ dquote @ ''WScript.Shell'' @ dquote @ '')'' @ newline @
               ''sLinkFile = '' @ dquote @ shortcut_path @ dquote @ newline @
               ''Set oLink = oWS.CreateShortcut(sLinkFile)'' @ newline @
               ''oLink.TargetPath = '' @ dquote @ start_script @ dquote @ newline @
               ''oLink.WorkingDirectory = '' @ dquote @ INSTALL_DIR w @ dquote @ newline @
               ''oLink.Description = '' @ dquote @ ''Start Code Execution API'' @ dquote @ newline @
               ''oLink.Save'' @ newline)))
    (seq (ignore (subprocess_run w False [''cscript'', ''/nologo'', temp_path w vbs_script]))
    (seq (os_remove_temp vbs_script)
    (seq (print (''Startup scripts created in '' @ INSTALL_DIR w))
    (seq (print (''Desktop shortcut created at '' @ shortcut_path))
         (ret True)))))))))"

subsection \<open>The service activator\<close>

definition os_chdir_install :: "world \<Rightarrow> unit prog" where
  "os_chdir_install w s =
     (case installdir s of
        Some (Dir es) \<Rightarrow> emit (Chdir (INSTALL_DIR w)) s
      | _ \<Rightarrow> (Inl (OSError ''The system cannot find the file specified''), s))"

definition start_docker_services :: "world \<Rightarrow> bool prog" where
  "start_docker_services w =
     seq (enter ''start_docker_services'')
    (seq (print_header ''Starting Services'')
    (seq (os_chdir_install w)
    (seq (print ''Building Docker container...'')
    (seq (ignore (subprocess_run w True [''docker-compose'', ''build'']))
    (seq (print ''Starting Docker container...'')
    (seq (ignore (subprocess_run w True [''docker-compose'', ''up'', ''-d'']))
    (seq (print ''Code Execution API is now running at http://localhost:8000'')
         (ret True))))))))"

subsection \<open>The orchestrator\<close>

definition lower_char :: "char \<Rightarrow> char" where
  "lower_char c =
     (case map_of (zip ''ABCDEFGHIJKLMNOPQRSTUVWXYZ'' ''abcdefghijklmnopqrstuvwxyz'') c of
        None \<Rightarrow> c
      | Some l \<Rightarrow> l)"

definition str_lower :: "string \<Rightarrow> string" where
  "str_lower t = map lower_char t"

definition main :: "world \<Rightarrow> unit prog" where
  "main w =
     seq (enter ''main'')
    (bind (is_admin w) (\<lambda>admin.
     seq (if admin = 0 then
            seq (print ''This installer requires administrator privileges.'')
           (seq (print ''Restarting with admin rights...'')
                (restart_as_admin w))
          else ret ())
    (seq (print_header ''Code Execution API Installer'')
    (seq (print (''This installer will set up the Code Execution API service '' @
                 ''on your computer.''))
    (seq (print (''Installation will be performed to: '' @ INSTALL_DIR w))
    (seq (print [])
    (seq (ignore (input w ''Press Enter to begin installation...''))
    (bind (check_docker_installed w) (\<lambda>docker_installed.
     seq (if \<not> docker_installed then
            seq (print ''Docker Desktop is not installed.'')
                (ignore (install_docker w))
          else print ''Docker Desktop is already installed.'')
    (bind (check_conda_installed w) (\<lambda>conda_installed.
     seq (if \<not> conda_installed then
            seq (print ''Miniconda is not installed.'')
                (ignore (install_miniconda w))
          else print ''Miniconda is already installed.'')
    (bind (download_and_extract_project w) (\<lambda>materialized.
     if \<not> materialized then
       seq (print ''Failed to download and extract project files. Aborting installation.'')
           (ignore (input w ''Press Enter to exit...''))
     else
       seq (ignore (create_conda_environment w))
      (seq (ignore (create_startup_scripts w))
      (seq (ignore (start_docker_services w))
      (seq (print_header ''Installation Complete'')
      (seq (print ''The Code Execution API has been successfully installed and started.'')
      (seq (print ''You can access the API at: http://localhost:8000'')
      (seq (print (''To start or stop the service, use the desktop shortcut or scripts in: '' @
                   INSTALL_DIR w))
      (bind (input w ''Would you like to open the API in your browser now? (y/n): '')
         (\<lambda>open_browser.
      seq (if str_lower open_browser = ''y'' then
             ignore (subprocess_run w True [''start'', ''http://localhost:8000''])
           else ret ())
          (ignore (input w ''Press Enter to exit the installer...'')))))))))))))))))))))))"

text \<open>The block under \<^verbatim>\<open>if __name__ == "__main__"\<close>: what running the script does.\<close>

definition script :: "world \<Rightarrow> unit prog" where
  "script w =
     try_except (main w) isinstance_Exception
       (\<lambda>e. seq (print (''An error occurred during installation: '' @ str_exn e))
                (ignore (input w ''Press Enter to exit...'')))"


subsection \<open>What a run adds to the console\<close>

text \<open>
  \<open>emits m Q\<close>: from every state, \<open>m\<close> only adds to the console, and its result together
  with the events it adds satisfies \<open>Q\<close>.
\<close>

definition emits :: "'a prog \<Rightarrow> (exn + 'a \<Rightarrow> event list \<Rightarrow> bool) \<Rightarrow> bool" where
  "emits m Q = (\<forall>s. \<exists>es. console (snd (m s)) = console s @ es \<and> Q (fst (m s)) es)"

text \<open>
  \<open>only P m\<close>: every event that \<open>m\<close> adds to the console satisfies \<open>P\<close>.  The three
  predicates below say of such a \<open>P\<close> that it admits every line of output, every prompt,
  every download; \<open>entering N\<close> admits every event but the entry into a
  function that is not named in \<open>N\<close>.
\<close>

definition only :: "(event \<Rightarrow> bool) \<Rightarrow> 'a prog \<Rightarrow> bool" where
  "only P m = emits m (\<lambda>r es. \<forall>e \<in> set es. P e)"

definition allows_output :: "(event \<Rightarrow> bool) \<Rightarrow> bool" where
  "allows_output P = (\<forall>l. P (Print l) \<and> P (StdoutWrite l))"

definition allows_input :: "(event \<Rightarrow> bool) \<Rightarrow> bool" where
  "allows_input P = (\<forall>p. P (Input p))"

definition allows_retrieve :: "(event \<Rightarrow> bool) \<Rightarrow> bool" where
  "allows_retrieve P = (\<forall>url path. P (Retrieve url path))"

definition entering :: "string set \<Rightarrow> event \<Rightarrow> bool" where
  "entering N e = (\<forall>f. e = Enter f \<longrightarrow> f \<in> N)"

subsection \<open>Worlds and states to run the script in\<close>

text \<open>
  \<open>demo_world\<close> is a machine on which every step succeeds: the process is elevated, both
  prerequisites are found, and the download yields an archive with the root
  \<^verbatim>\<open>app-main/\<close>.  \<open>demo_state\<close> is a machine with a stale installation and a file of the
  operator's.  The other worlds differ from \<open>demo_world\<close> in one answer each.
\<close>

definition demo_archive :: "(string \<times> string) list" where
  "demo_archive =
     [(''app-main/'', []),
      (''app-main/requirements.txt'', ''fastapi''),
      (''app-main/docker-compose.yml'', ''services: new'')]"

definition demo_world :: world where
  "demo_world =
     \<lparr> IsUserAnAdmin = Inr 1,
       ShellExecuteW = (\<lambda>verb file params. Inr 42),
       sys_executable = ''python.exe'',
       sys_argv = [''installer.py'', ''--quiet''],
       environ_PROGRAMDATA = ''C:/ProgramData'',
       environ_USERPROFILE = ''C:/Users/op'',
       gettempdir = ''C:/Temp'',
       urlretrieve = (\<lambda>url. \<lparr> callbacks = [(0, 8192, - 1), (1, 8192, - 1)],
                               written = Some ''PK-demo'', failure = None \<rparr>),
       winreg_lookup = (\<lambda>sub_key. None),
       subprocess_outcome = (\<lambda>shell args. Inr \<lparr> returncode = 0, stdout = [], stderr = [] \<rparr>),
       input_reply = (\<lambda>prompt. []),
       zip_decode = (\<lambda>data. if data = ''PK-demo'' then Some demo_archive else None) \<rparr>"

definition demo_state :: state where
  "demo_state =
     \<lparr> console = [],
       tempfs = [],
       installdir = Some (Dir [(''docker-compose.yml'', File ''services: stale''),
                               (''notes.txt'', File ''keep me'')]),
       environ_PATH = ''C:/Windows'' \<rparr>"

definition offline_world :: world where
  "offline_world =
     demo_world\<lparr> urlretrieve :=
       (\<lambda>url. \<lparr> callbacks = [], written = None,
                 failure = Some (URLError ''getaddrinfo failed'') \<rparr>) \<rparr>"

definition bare_world :: world where
  "bare_world =
     demo_world\<lparr> winreg_lookup := (\<lambda>sub_key. Some ''The system cannot find the file specified''),
       subprocess_outcome := (\<lambda>shell args. Inr \<lparr> returncode = 1, stdout = [], stderr = ''failed'' \<rparr>) \<rparr>"

definition unprivileged_world :: world where
  "unprivileged_world = demo_world\<lparr> IsUserAnAdmin := Inr 0 \<rparr>"

definition blank_path_world :: world where
  "blank_path_world = unprivileged_world\<lparr> sys_argv := [''C:/Users/John Smith/installer.py''] \<rparr>"

definition split_path_world :: world where
  "split_path_world =
     unprivileged_world\<lparr> sys_argv := [''C:/Users/John'', ''Smith/installer.py''] \<rparr>"

section \<open>Verification\<close>

subsection \<open>Running the sequencing operators\<close>

lemma seq_emit [simp]: "seq (emit e) m s = m (s\<lparr>console := console s @ [e]\<rparr>)"
  by (simp add: seq_def bind_def emit_def)

lemma seq_print [simp]: "seq (print l) m s = m (s\<lparr>console := console s @ [Print l]\<rparr>)"
  by (simp add: print_def)

lemma seq_enter [simp]: "seq (enter f) m s = m (s\<lparr>console := console s @ [Enter f]\<rparr>)"
  by (simp add: enter_def)

lemma bind_fst_snd:
  "bind m f s = (case fst (m s) of Inl e \<Rightarrow> (Inl e, snd (m s)) | Inr v \<Rightarrow> f v (snd (m s)))"
  by (simp add: bind_def split: prod.splits sum.splits)

lemmas monad_defs = ret_def raise_def bind_def seq_def try_except_def emit_def print_def
  sys_stdout_write_def input_def subprocess_run_def enter_def ignore_def

subsection \<open>The fetch never raises past \<^verbatim>\<open>download_file\<close>\<close>

lemma report_progress_raises_Exception:
  "report_progress bn bs tot s = (Inl e, s') \<Longrightarrow> isinstance_Exception e"
  by (auto simp: report_progress_def monad_defs Let_def int_true_div_def
      split: if_splits sum.splits)

lemma for_each_raises:
  assumes "\<And>x s e s'. body x s = (Inl e, s') \<Longrightarrow> P e"
  shows "for_each xs body s = (Inl e, s') \<Longrightarrow> P e"
proof (induction xs arbitrary: s)
  case Nil
  then show ?case by (simp add: ret_def)
next
  case (Cons x xs)
  then show ?case using assms
    by (auto simp: seq_def bind_def split: prod.splits sum.splits)
qed

lemma hooks_raise_Exception:
  "for_each cbs (\<lambda>(bn, bs, tot). report_progress bn bs tot) t = (Inl e, t')
     \<Longrightarrow> isinstance_Exception e"
  by (rule for_each_raises [where P = isinstance_Exception])
     (auto dest: report_progress_raises_Exception)

lemma urlretrieve_result:
  assumes "urllib_request_urlretrieve w url dest report_progress s = (r, s')"
  shows "case r of Inl e \<Rightarrow> isinstance_Exception e \<or> failure (urlretrieve w url) = Some e
                 | Inr u \<Rightarrow> failure (urlretrieve w url) = None"
  using assms
  by (auto simp: urllib_request_urlretrieve_def seq_def bind_def ret_def raise_def emit_def
      temp_write_def split: option.splits sum.splits prod.splits
      dest: hooks_raise_Exception)

lemma guarded_transfer:
  assumes "\<forall>e. failure (urlretrieve w url) = Some e \<longrightarrow> isinstance_Exception e"
    and "\<And>t. \<exists>t'. k t = (Inr True, t')"
    and "\<And>e t. \<exists>t'. h e t = (Inr False, t')"
  shows "\<exists>b s'. try_except
            (seq (urllib_request_urlretrieve w url destination report_progress) k)
            isinstance_Exception h s = (Inr b, s') \<and>
           (b \<longrightarrow> failure (urlretrieve w url) = None)"
proof (cases "urllib_request_urlretrieve w url destination report_progress s")
  case (Pair r s1)
  show ?thesis
  proof (cases r)
    case (Inl e)
    with urlretrieve_result [OF Pair] assms(1) have "isinstance_Exception e" by auto
    with Pair Inl assms(3) [of e s1] show ?thesis
      by (auto simp: try_except_def seq_def bind_def)
  next
    case (Inr u)
    with urlretrieve_result [OF Pair] have "failure (urlretrieve w url) = None" by simp
    with Pair Inr assms(2) [of s1] show ?thesis
      by (auto simp: try_except_def seq_def bind_def)
  qed
qed

lemma download_file_result:
  assumes "\<forall>e. failure (urlretrieve w url) = Some e \<longrightarrow> isinstance_Exception e"
  shows "\<exists>b s'. download_file w url destination s = (Inr b, s') \<and>
           (b \<longrightarrow> failure (urlretrieve w url) = None)"
  unfolding download_file_def seq_enter seq_print
  by (rule guarded_transfer [OF assms]) (simp_all add: ret_def)

lemma report_progress_fst:
  "fst (report_progress bn bs tot s) =
     (if tot > 0 then (case int_true_div (bn * bs * 100) tot of Inl e \<Rightarrow> Inl e | Inr q \<Rightarrow> Inr ())
      else Inr ())"
  by (simp add: report_progress_def monad_defs Let_def split: sum.splits)

lemma for_each_all_return:
  assumes "\<And>x s. x \<in> set xs \<Longrightarrow> fst (body x s) = Inr ()"
  shows "fst (for_each xs body s) = Inr ()"
  using assms
proof (induction xs arbitrary: s)
  case Nil
  then show ?case by (simp add: ret_def)
next
  case (Cons x xs)
  from Cons.prems [of x s] have "fst (body x s) = Inr ()" by simp
  moreover have "fst (for_each xs body (snd (body x s))) = Inr ()"
    by (rule Cons.IH) (simp add: Cons.prems)
  ultimately show ?case
    by (simp add: seq_def bind_fst_snd)
qed

lemma for_each_some_raises:
  assumes "x \<in> set xs" and "\<And>s. isl (fst (body x s))"
  shows "isl (fst (for_each xs body s))"
  using assms(1)
proof (induction xs arbitrary: s)
  case Nil
  then show ?case by simp
next
  case (Cons y ys)
  show ?case
  proof (cases "fst (body y s)")
    case (Inl e)
    then show ?thesis by (simp add: seq_def bind_fst_snd)
  next
    case (Inr u)
    show ?thesis
    proof (cases "x = y")
      case True
      with assms(2) [of s] Inr show ?thesis by simp
    next
      case False
      with Cons.prems have "x \<in> set ys" by simp
      from Cons.IH [OF this] Inr show ?thesis
        by (simp add: seq_def bind_fst_snd)
    qed
  qed
qed

lemma hooks_fst:
  "fst (for_each cbs (\<lambda>(bn, bs, tot). report_progress bn bs tot) s) = Inr () \<longleftrightarrow>
     (\<forall>(bn, bs, tot) \<in> set cbs. tot > 0 \<longrightarrow> \<not> isl (int_true_div (bn * bs * 100) tot))"
proof
  assume ok: "fst (for_each cbs (\<lambda>(bn, bs, tot). report_progress bn bs tot) s) = Inr ()"
  show "\<forall>(bn, bs, tot) \<in> set cbs. tot > 0 \<longrightarrow> \<not> isl (int_true_div (bn * bs * 100) tot)"
  proof (rule ccontr)
    assume "\<not> ?thesis"
    then obtain bn bs tot where x: "(bn, bs, tot) \<in> set cbs" "tot > 0"
      "isl (int_true_div (bn * bs * 100) tot)" by auto
    have "isl (fst (for_each cbs (\<lambda>(bn, bs, tot). report_progress bn bs tot) s))"
      by (rule for_each_some_raises [OF x(1)])
         (use x(2,3) in \<open>auto simp: report_progress_fst split: sum.splits\<close>)
    with ok show False by simp
  qed
next
  assume "\<forall>(bn, bs, tot) \<in> set cbs. tot > 0 \<longrightarrow> \<not> isl (int_true_div (bn * bs * 100) tot)"
  then show "fst (for_each cbs (\<lambda>(bn, bs, tot). report_progress bn bs tot) s) = Inr ()"
    by (intro for_each_all_return) (fastforce simp: report_progress_fst split: sum.splits)
qed

lemma hooks_return:
  assumes "\<forall>(bn, bs, tot) \<in> set cbs. tot > 0 \<longrightarrow> \<not> isl (int_true_div (bn * bs * 100) tot)"
  shows "fst (for_each cbs (\<lambda>(bn, bs, tot). report_progress bn bs tot) s) = Inr ()"
  using assms by (simp only: hooks_fst)

lemma urlretrieve_fst_ok:
  assumes "\<forall>data. written (urlretrieve w url) = Some data \<longrightarrow>
            tree_put_file d data (tempfs s) \<noteq> None"
    and "\<forall>(bn, bs, tot) \<in> set (callbacks (urlretrieve w url)).
            tot > 0 \<longrightarrow> \<not> isl (int_true_div (bn * bs * 100) tot)"
  shows "fst (urllib_request_urlretrieve w url d report_progress s) =
           (case failure (urlretrieve w url) of None \<Rightarrow> Inr () | Some e \<Rightarrow> Inl e)"
  using assms(1)
  by (auto simp: urllib_request_urlretrieve_def seq_def bind_fst_snd emit_def ret_def raise_def
      temp_write_def hooks_return [OF assms(2)] split: option.splits)

lemma urlretrieve_fst_bad:
  assumes "\<not> ((\<forall>data. written (urlretrieve w url) = Some data \<longrightarrow>
            tree_put_file d data (tempfs s) \<noteq> None) \<and>
         (\<forall>(bn, bs, tot) \<in> set (callbacks (urlretrieve w url)).
            tot > 0 \<longrightarrow> \<not> isl (int_true_div (bn * bs * 100) tot)))"
  shows "\<exists>e. fst (urllib_request_urlretrieve w url d report_progress s) = Inl e \<and>
           isinstance_Exception e"
proof (cases "\<forall>data. written (urlretrieve w url) = Some data \<longrightarrow>
            tree_put_file d data (tempfs s) \<noteq> None")
  case False
  then show ?thesis
    by (auto simp: urllib_request_urlretrieve_def seq_def bind_fst_snd emit_def ret_def raise_def
      temp_write_def split: option.splits)
next
  case True
  define s1 where "s1 = snd (seq (emit (Retrieve url (temp_path w d)))
     (case written (urlretrieve w url) of None \<Rightarrow> ret () | Some data \<Rightarrow> temp_write d data) s)"
  let ?hooks = "for_each (callbacks (urlretrieve w url))
     (\<lambda>(bn, bs, tot). report_progress bn bs tot) s1"
  from True assms have "fst ?hooks \<noteq> Inr ()"
    by (simp add: hooks_fst)
  then obtain e where e: "fst ?hooks = Inl e"
    by (cases "fst ?hooks") auto
  then have "?hooks = (Inl e, snd ?hooks)"
    by (metis prod.collapse)
  then have "isinstance_Exception e"
    by (rule hooks_raise_Exception)
  moreover from True e have "fst (urllib_request_urlretrieve w url d report_progress s) = Inl e"
    unfolding s1_def
    by (auto simp: urllib_request_urlretrieve_def seq_def bind_fst_snd emit_def ret_def raise_def
      temp_write_def split: option.splits)
  ultimately show ?thesis by blast
qed

lemma download_file_fst:
  "fst (download_file w url d s) =
     (if (\<forall>data. written (urlretrieve w url) = Some data \<longrightarrow>
            tree_put_file d data (tempfs s) \<noteq> None) \<and>
         (\<forall>(bn, bs, tot) \<in> set (callbacks (urlretrieve w url)).
            tot > 0 \<longrightarrow> \<not> isl (int_true_div (bn * bs * 100) tot))
      then (case failure (urlretrieve w url) of
              None \<Rightarrow> Inr True
            | Some e \<Rightarrow> if isinstance_Exception e then Inr False else Inl e)
      else Inr False)"
proof -
  let ?s1 = "s\<lparr>console := console s @ [Enter ''download_file'',
      Print (''Downloading from '' @ url @ ''...'')]\<rparr>"
  have t: "tempfs ?s1 = tempfs s" by simp
  show ?thesis
  proof (cases "(\<forall>data. written (urlretrieve w url) = Some data \<longrightarrow>
            tree_put_file d data (tempfs s) \<noteq> None) \<and>
         (\<forall>(bn, bs, tot) \<in> set (callbacks (urlretrieve w url)).
            tot > 0 \<longrightarrow> \<not> isl (int_true_div (bn * bs * 100) tot))")
    case True
    then have "fst (urllib_request_urlretrieve w url d report_progress ?s1) =
           (case failure (urlretrieve w url) of None \<Rightarrow> Inr () | Some e \<Rightarrow> Inl e)"
      using urlretrieve_fst_ok [of w url d ?s1] by simp
    with True show ?thesis
      by (simp add: download_file_def try_except_def seq_def bind_fst_snd emit_def print_def
          enter_def ret_def split: prod.splits sum.splits option.splits)
  next
    case False
    then have "\<exists>e. fst (urllib_request_urlretrieve w url d report_progress ?s1) = Inl e \<and>
           isinstance_Exception e"
      using urlretrieve_fst_bad [of w url d ?s1] by simp
    with False show ?thesis
      by (auto simp: download_file_def try_except_def seq_def bind_fst_snd emit_def print_def
          enter_def ret_def split: prod.splits sum.splits option.splits)
  qed
qed

text \<open>
  \<^bold>\<open>C5.\<close>  What \<^verbatim>\<open>download_file\<close> gives back, for every world, url, destination and state.
  It returns \<open>True\<close> exactly when the destination file could be written, no call of the
  report hook raised and the transfer ended without an exception.  When the transfer
  ends with an exception of the class \<^verbatim>\<open>Exception\<close>, or the file cannot be written, or a
  hook raises, it returns \<open>False\<close>: never \<open>True\<close>, and never the exception.  The errors of
  the network (\<^verbatim>\<open>URLError\<close>), of the file system (\<^verbatim>\<open>OSError\<close>) and of the protocol
  (\<^verbatim>\<open>HTTPError\<close>) are of that class, so with them the function always returns a boolean;
  the only exceptions that leave it are those that are not of the class \<^verbatim>\<open>Exception\<close>.
\<close>

theorem download_file_never_raises:
  "fst (download_file w url destination s) =
     (if (\<forall>data. written (urlretrieve w url) = Some data \<longrightarrow>
            tree_put_file destination data (tempfs s) \<noteq> None) \<and>
         (\<forall>(bn, bs, tot) \<in> set (callbacks (urlretrieve w url)).
            tot > 0 \<longrightarrow> \<not> isl (int_true_div (bn * bs * 100) tot))
      then (case failure (urlretrieve w url) of
              None \<Rightarrow> Inr True
            | Some e \<Rightarrow> if isinstance_Exception e then Inr False else Inl e)
      else Inr False)
   \<and> ((\<forall>e. failure (urlretrieve w url) = Some e \<longrightarrow> isinstance_Exception e) \<longrightarrow>
        (\<exists>b. fst (download_file w url destination s) = Inr b))
   \<and> isinstance_Exception (URLError m) \<and> isinstance_Exception (OSError m)
   \<and> isinstance_Exception (HTTPError m)"
  by (auto simp: download_file_fst split: option.splits)

theorem download_file_never_raises_witness:
  "fst (download_file offline_world PROJECT_ZIP_URL [''project.zip''] demo_state) = Inr False
   \<and> fst (download_file demo_world PROJECT_ZIP_URL [''missing'', ''project.zip''] demo_state)
       = Inr False
   \<and> fst (download_file demo_world PROJECT_ZIP_URL [''project.zip''] demo_state) = Inr True"
  using download_file_never_raises [of offline_world PROJECT_ZIP_URL "[''project.zip'']" demo_state]
    download_file_never_raises
      [of demo_world PROJECT_ZIP_URL "[''missing'', ''project.zip'']" demo_state]
    download_file_never_raises [of demo_world PROJECT_ZIP_URL "[''project.zip'']" demo_state]
  by (simp add: offline_world_def demo_world_def demo_state_def)

subsection \<open>The probes\<close>

text \<open>
  \<^bold>\<open>C6.\<close>  Both probes return a boolean from every state and in every world, so no
  error of the lookup leaves them.  \<^verbatim>\<open>check_docker_installed\<close> returns \<open>True\<close> exactly when
  the registry key opens, hence \<open>False\<close> whenever the lookup raises its \<^verbatim>\<open>OSError\<close>;
  \<^verbatim>\<open>check_conda_installed\<close> returns \<open>True\<close> exactly when \<^verbatim>\<open>conda --version\<close> runs and exits
  with status zero, hence \<open>False\<close> when the call raises or exits non-zero.
\<close>

theorem probes_fail_closed:
  "(\<exists>b s'. check_docker_installed w s = (Inr b, s') \<and>
      (b \<longleftrightarrow> winreg_lookup w
               (''SOFTWARE'' @ backslash @ ''Docker Inc.'' @ backslash @ ''Docker Desktop'') = None))
 \<and> (\<exists>b s'. check_conda_installed w s = (Inr b, s') \<and>
      (b \<longleftrightarrow> (\<exists>r. subprocess_outcome w True [''conda'', ''--version''] = Inr r \<and>
                     returncode r = 0)))"
  by (auto simp: check_docker_installed_def check_conda_installed_def winreg_OpenKey_def
      monad_defs catch_all_def split: option.splits sum.splits)

theorem probes_fail_closed_witness:
  "(\<exists>s'. check_docker_installed bare_world demo_state = (Inr False, s'))
 \<and> (\<exists>s'. check_conda_installed bare_world demo_state = (Inr False, s'))"
  using probes_fail_closed [of bare_world demo_state]
  by (auto simp: bare_world_def demo_world_def)


subsection \<open>Which events a run adds\<close>

lemma emits_bind:
  assumes "emits m QA"
    and "\<And>e es. QA (Inl e) es \<Longrightarrow> Q (Inl e) es"
    and "\<And>v es1. QA (Inr v) es1 \<Longrightarrow> emits (f v) (\<lambda>r es2. Q r (es1 @ es2))"
  shows "emits (bind m f) Q"
  unfolding emits_def
proof
  fix s
  from assms(1) obtain es1 where m: "console (snd (m s)) = console s @ es1" "QA (fst (m s)) es1"
    unfolding emits_def by blast
  show "\<exists>es. console (snd (bind m f s)) = console s @ es \<and> Q (fst (bind m f s)) es"
  proof (cases "fst (m s)")
    case (Inl e)
    with m assms(2) show ?thesis
      by (auto simp: bind_def split: prod.splits)
  next
    case (Inr v)
    from m Inr have "emits (f v) (\<lambda>r es2. Q r (es1 @ es2))"
      by (simp add: assms(3))
    then obtain es2 where
      "console (snd (f v (snd (m s)))) = console (snd (m s)) @ es2"
      "Q (fst (f v (snd (m s)))) (es1 @ es2)"
      unfolding emits_def by blast
    with m Inr show ?thesis
      by (auto simp: bind_def split: prod.splits)
  qed
qed

lemma emits_seq:
  assumes "emits m QA"
    and "\<And>e es. QA (Inl e) es \<Longrightarrow> Q (Inl e) es"
    and "\<And>v es1. QA (Inr v) es1 \<Longrightarrow> emits n (\<lambda>r es2. Q r (es1 @ es2))"
  shows "emits (seq m n) Q"
  unfolding seq_def using assms by (rule emits_bind)

lemma emits_weaken: "emits m QA \<Longrightarrow> (\<And>r es. QA r es \<Longrightarrow> Q r es) \<Longrightarrow> emits m Q"
  unfolding emits_def by blast

lemma emits_conj: "emits m QA \<Longrightarrow> emits m QB \<Longrightarrow> emits m (\<lambda>r es. QA r es \<and> QB r es)"
  unfolding emits_def by (metis same_append_eq)

lemma emits_try:
  assumes "emits body QA"
    and "\<And>v es. QA (Inr v) es \<Longrightarrow> Q (Inr v) es"
    and "\<And>e es. QA (Inl e) es \<Longrightarrow> \<not> catches e \<Longrightarrow> Q (Inl e) es"
    and "\<And>e es1. QA (Inl e) es1 \<Longrightarrow> catches e \<Longrightarrow> emits (h e) (\<lambda>r es2. Q r (es1 @ es2))"
  shows "emits (try_except body catches h) Q"
  unfolding emits_def
proof
  fix s
  from assms(1) obtain es1 where m: "console (snd (body s)) = console s @ es1" "QA (fst (body s)) es1"
    unfolding emits_def by blast
  show "\<exists>es. console (snd (try_except body catches h s)) = console s @ es \<and>
      Q (fst (try_except body catches h s)) es"
  proof (cases "fst (body s)")
    case (Inr v)
    with m assms(2) show ?thesis
      by (auto simp: try_except_def split: prod.splits)
  next
    case (Inl e)
    show ?thesis
    proof (cases "catches e")
      case False
      with Inl m assms(3) show ?thesis
        by (auto simp: try_except_def split: prod.splits)
    next
      case True
      from Inl m True have "emits (h e) (\<lambda>r es2. Q r (es1 @ es2))"
        by (simp add: assms(4))
      then obtain es2 where
        "console (snd (h e (snd (body s)))) = console (snd (body s)) @ es2"
        "Q (fst (h e (snd (body s)))) (es1 @ es2)"
        unfolding emits_def by blast
      with m Inl True show ?thesis
        by (auto simp: try_except_def split: prod.splits)
    qed
  qed
qed

named_theorems only_intro

lemma only_ret [only_intro]: "only P (ret v)"
  by (simp add: only_def emits_def ret_def)

lemma only_raise [only_intro]: "only P (raise e)"
  by (simp add: only_def emits_def raise_def)

lemma only_emit [only_intro]: "P e \<Longrightarrow> only P (emit e)"
  by (auto simp: only_def emits_def emit_def)

lemma only_print [only_intro]: "P (Print l) \<Longrightarrow> only P (print l)"
  by (simp add: print_def only_emit)

lemma only_sys_stdout_write [only_intro]: "P (StdoutWrite l) \<Longrightarrow> only P (sys_stdout_write l)"
  by (simp add: sys_stdout_write_def only_emit)

lemma only_enter [only_intro]: "P (Enter f) \<Longrightarrow> only P (enter f)"
  by (simp add: enter_def only_emit)

lemma only_append:
  assumes "only P m" and "\<forall>e \<in> set es1. P e"
  shows "emits m (\<lambda>r es2. \<forall>e \<in> set es1 \<union> set es2. P e)"
  unfolding emits_def
proof
  fix s
  from assms(1) obtain es where "console (snd (m s)) = console s @ es" "\<forall>e \<in> set es. P e"
    unfolding only_def emits_def by blast
  with assms(2) show "\<exists>es. console (snd (m s)) = console s @ es \<and> (\<forall>e\<in>set es1 \<union> set es. P e)"
    by blast
qed

lemma only_bind [only_intro]: "only P m \<Longrightarrow> (\<And>v. only P (f v)) \<Longrightarrow> only P (bind m f)"
  unfolding only_def [of P "bind m f"]
  by (rule emits_bind [where QA = "\<lambda>r es. \<forall>e \<in> set es. P e"])
     (simp_all add: only_append, simp add: only_def)

lemma only_seq [only_intro]: "only P m \<Longrightarrow> only P n \<Longrightarrow> only P (seq m n)"
  by (simp add: seq_def only_bind)

lemma only_ignore [only_intro]: "only P m \<Longrightarrow> only P (ignore m)"
  by (simp add: ignore_def only_bind only_ret)

lemma only_try [only_intro]:
  "only P body \<Longrightarrow> (\<And>e. only P (h e)) \<Longrightarrow> only P (try_except body catches h)"
  unfolding only_def [of P "try_except body catches h"]
  by (rule emits_try [where QA = "\<lambda>r es. \<forall>e \<in> set es. P e"])
     (simp_all add: only_append, simp add: only_def)

lemma only_for_each [only_intro]: "(\<And>x. only P (body x)) \<Longrightarrow> only P (for_each xs body)"
  by (induction xs) (auto intro: only_ret only_seq)

lemma only_silent: "(\<And>s. console (snd (m s)) = console s) \<Longrightarrow> only P m"
  by (simp add: only_def emits_def)

lemma only_mono: "only P m \<Longrightarrow> (\<And>e. P e \<Longrightarrow> P' e) \<Longrightarrow> only P' m"
  unfolding only_def emits_def by blast

lemma only_input [only_intro]: "P (Input p) \<Longrightarrow> only P (input w p)"
  by (auto simp: input_def intro!: only_intro)

lemma only_subprocess_run [only_intro]: "P (Run sh args) \<Longrightarrow> only P (subprocess_run w sh args)"
  by (auto simp: subprocess_run_def intro!: only_intro split: sum.splits)

lemma only_shell_execute [only_intro]:
  "P (ShellExecute a b c) \<Longrightarrow> only P (shell_execute w a b c)"
  by (auto simp: shell_execute_def intro!: only_intro split: sum.splits)

lemma only_print_header [only_intro]: "allows_output P \<Longrightarrow> only P (print_header m)"
  by (auto simp: print_header_def Let_def allows_output_def intro!: only_intro)

lemma only_report_progress [only_intro]: "allows_output P \<Longrightarrow> only P (report_progress a b c)"
  by (auto simp: report_progress_def Let_def allows_output_def intro!: only_intro split: sum.splits)

lemma only_temp_write [only_intro]: "only P (temp_write p d)"
  by (rule only_silent) (simp add: temp_write_def split: option.splits)

lemma only_urlretrieve [only_intro]:
  "allows_output P \<Longrightarrow> P (Retrieve url (temp_path w d)) \<Longrightarrow>
   only P (urllib_request_urlretrieve w url d report_progress)"
  by (auto simp: urllib_request_urlretrieve_def intro!: only_intro split: option.splits)

lemma only_download_file [only_intro]:
  "allows_output P \<Longrightarrow> allows_retrieve P \<Longrightarrow> P (Enter ''download_file'') \<Longrightarrow>
   only P (download_file w url d)"
  by (auto simp: download_file_def allows_output_def allows_retrieve_def intro!: only_intro)

lemma only_is_admin [only_intro]: "P (Enter ''is_admin'') \<Longrightarrow> only P (is_admin w)"
  by (auto simp: is_admin_def intro!: only_intro split: sum.splits)

lemma only_restart_as_admin [only_intro]:
  "P (Enter ''restart_as_admin'') \<Longrightarrow>
   P (ShellExecute ''runas'' (sys_executable w) (str_join '' '' (sys_argv w))) \<Longrightarrow>
   only P (restart_as_admin w)"
  by (auto simp: restart_as_admin_def sys_exit_def intro!: only_intro)

lemma only_check_docker_installed [only_intro]:
  "P (Enter ''check_docker_installed'') \<Longrightarrow> only P (check_docker_installed w)"
  by (auto simp: check_docker_installed_def winreg_OpenKey_def intro!: only_intro
      split: option.splits)

lemma only_check_conda_installed [only_intro]:
  "P (Enter ''check_conda_installed'') \<Longrightarrow> P (Run True [''conda'', ''--version'']) \<Longrightarrow>
   only P (check_conda_installed w)"
  by (auto simp: check_conda_installed_def intro!: only_intro)

lemma only_install_docker [only_intro]:
  "allows_output P \<Longrightarrow> allows_retrieve P \<Longrightarrow> P (Enter ''install_docker'') \<Longrightarrow>
   P (Enter ''download_file'') \<Longrightarrow>
   P (Run False [temp_path w [''DockerDesktopInstaller.exe''], ''install'', ''--quiet'']) \<Longrightarrow>
   P (Input ''Press Enter to continue after installing Docker Desktop manually...'') \<Longrightarrow>
   only P (install_docker w)"
  by (auto simp: install_docker_def Let_def allows_output_def intro!: only_intro)

lemma only_set_PATH [only_intro]: "only P (\<lambda>s. (Inr (), s\<lparr>environ_PATH := p s\<rparr>))"
  by (rule only_silent) simp

lemma only_install_miniconda [only_intro]:
  "allows_output P \<Longrightarrow> allows_retrieve P \<Longrightarrow> P (Enter ''install_miniconda'') \<Longrightarrow>
   P (Enter ''download_file'') \<Longrightarrow>
   P (Run False [temp_path w [''Miniconda3_Installer.exe''], ''/InstallationType=JustMe'',
        ''/RegisterPython=0'', ''/S'', ''/D=%UserProfile%'' @ backslash @ ''Miniconda3'']) \<Longrightarrow>
   P (Input ''Press Enter to continue after installing Miniconda manually...'') \<Longrightarrow>
   only P (install_miniconda w)"
  by (auto simp: install_miniconda_def Let_def allows_output_def intro!: only_intro)

lemma only_tempfile_mkdtemp [only_intro]: "only P tempfile_mkdtemp"
  by (rule only_silent) (simp add: tempfile_mkdtemp_def Let_def)

lemma only_os_makedirs_install [only_intro]: "only P os_makedirs_install"
  by (rule only_silent) (simp add: os_makedirs_install_def split: option.splits node.splits)

lemma only_zipfile_ZipFile [only_intro]: "only P (zipfile_ZipFile w p)"
  by (rule only_silent) (simp add: zipfile_ZipFile_def split: option.splits node.splits)

lemma only_zip_extract [only_intro]: "only P (zip_extract b m)"
  by (rule only_silent) (simp add: zip_extract_def split: option.splits)

lemma only_zip_extractall [only_intro]: "only P (zip_extractall ms b)"
  by (auto simp: zip_extractall_def intro!: only_intro)

lemma only_os_listdir_temp [only_intro]: "only P (os_listdir_temp p)"
  by (rule only_silent) (simp add: os_listdir_temp_def split: option.splits node.splits)

lemma only_os_path_exists_install [only_intro]: "only P (os_path_exists_install i)"
  by (rule only_silent) (simp add: os_path_exists_install_def)

lemma only_os_path_isdir_install [only_intro]: "only P (os_path_isdir_install i)"
  by (rule only_silent) (simp add: os_path_isdir_install_def)

lemma only_shutil_rmtree_install [only_intro]: "only P (shutil_rmtree_install i)"
  by (rule only_silent) (simp add: shutil_rmtree_install_def split: option.splits node.splits)

lemma only_os_remove_install [only_intro]: "only P (os_remove_install i)"
  by (rule only_silent) (simp add: os_remove_install_def split: option.splits node.splits)

lemma only_shutil_move_install [only_intro]: "only P (shutil_move_install p i)"
  by (rule only_silent) (simp add: shutil_move_install_def split: option.splits node.splits)

lemma only_shutil_rmtree_temp [only_intro]: "only P (shutil_rmtree_temp d)"
  by (rule only_silent) (simp add: shutil_rmtree_temp_def split: option.splits node.splits)

lemma only_move_item [only_intro]: "only P (move_item d i)"
  by (auto simp: move_item_def intro!: only_intro)

lemma only_download_and_extract_project [only_intro]:
  "allows_output P \<Longrightarrow> allows_retrieve P \<Longrightarrow> P (Enter ''download_and_extract_project'') \<Longrightarrow>
   P (Enter ''download_file'') \<Longrightarrow> only P (download_and_extract_project w)"
  by (auto simp: download_and_extract_project_def Let_def allows_output_def intro!: only_intro)

lemma only_create_conda_environment [only_intro]:
  "allows_output P \<Longrightarrow> P (Enter ''create_conda_environment'') \<Longrightarrow>
   P (Run True [''conda'', ''env'', ''list'']) \<Longrightarrow>
   P (Run True [''conda'', ''env'', ''update'', ''-n'', ''code_execution_api'', ''--file'',
        os_path_join (INSTALL_DIR w) ''requirements.txt'']) \<Longrightarrow>
   P (Run True [''conda'', ''create'', ''-n'', ''code_execution_api'', ''python=3.11'', ''-y'']) \<Longrightarrow>
   P (Run True [''conda'', ''run'', ''-n'', ''code_execution_api'', ''pip'', ''install'', ''-r'',
        os_path_join (INSTALL_DIR w) ''requirements.txt'']) \<Longrightarrow>
   only P (create_conda_environment w)"
  by (auto simp: create_conda_environment_def Let_def allows_output_def intro!: only_intro)

lemma only_install_write_text [only_intro]: "only P (install_write_text n t)"
  by (rule only_silent) (simp add: install_write_text_def split: option.splits node.splits)

lemma only_os_remove_temp [only_intro]: "only P (os_remove_temp p)"
  by (rule only_silent) (simp add: os_remove_temp_def split: option.splits node.splits)

lemma only_create_startup_scripts [only_intro]:
  "allows_output P \<Longrightarrow> P (Enter ''create_startup_scripts'') \<Longrightarrow>
   P (Run False [''cscript'', ''/nologo'', temp_path w [''create_shortcut.vbs'']]) \<Longrightarrow>
   only P (create_startup_scripts w)"
  by (auto simp: create_startup_scripts_def Let_def allows_output_def intro!: only_intro)

lemma only_os_chdir_install [only_intro]: "P (Chdir (INSTALL_DIR w)) \<Longrightarrow> only P (os_chdir_install w)"
  by (auto simp: only_def emits_def os_chdir_install_def emit_def split: option.splits node.splits)

lemma only_start_docker_services [only_intro]:
  "allows_output P \<Longrightarrow> P (Enter ''start_docker_services'') \<Longrightarrow>
   P (Chdir (INSTALL_DIR w)) \<Longrightarrow>
   P (Run True [''docker-compose'', ''build'']) \<Longrightarrow>
   P (Run True [''docker-compose'', ''up'', ''-d'']) \<Longrightarrow>
   only P (start_docker_services w)"
  by (auto simp: start_docker_services_def allows_output_def intro!: only_intro)

lemma allows_entering [simp]:
  "allows_output (entering N)" "allows_input (entering N)" "allows_retrieve (entering N)"
  by (simp_all add: allows_output_def allows_input_def allows_retrieve_def entering_def)

lemma entering_Enter [simp]: "entering N (Enter f) \<longleftrightarrow> f \<in> N"
  by (simp add: entering_def)

subsection \<open>A failed fetch of the project archive\<close>

lemma bind_known_result:
  assumes "\<And>s v. fst (m s) = Inr v \<Longrightarrow> v = c"
  shows "bind m f = bind m (\<lambda>_. f c)"
proof
  fix s
  show "bind m f s = bind m (\<lambda>_. f c) s"
    using assms [of s] by (cases "m s") (auto simp: bind_def split: sum.splits)
qed

lemma download_file_fails:
  assumes "failure (urlretrieve w url) = Some e" and "isinstance_Exception e"
  shows "fst (download_file w url d s) = Inr False"
  using download_file_result [of w url d s] assms by auto

lemma materializer_fetch_failure:
  assumes "failure (urlretrieve w PROJECT_ZIP_URL) = Some e" and "isinstance_Exception e"
  shows "fst (download_and_extract_project w s) = Inr False"
  by (simp add: download_and_extract_project_def print_header_def Let_def bind_fst_snd
      tempfile_mkdtemp_def download_file_fails [OF assms] ret_def seq_def print_def emit_def
      enter_def)

lemma main_fetch_failure:
  assumes "failure (urlretrieve w PROJECT_ZIP_URL) = Some e" and "isinstance_Exception e"
  shows "only (entering {''main'', ''is_admin'', ''restart_as_admin'', ''check_docker_installed'',
           ''install_docker'', ''check_conda_installed'', ''install_miniconda'',
           ''download_file'', ''download_and_extract_project''}) (main w)"
  unfolding main_def
  apply (subst bind_known_result [of "download_and_extract_project w" False])
   apply (simp add: materializer_fetch_failure [OF assms])
  apply (auto intro!: only_intro simp: entering_def)
  done

lemma never_enters:
  assumes "only (entering N) m" and "f \<notin> N" and "g \<notin> N" and "h \<notin> N"
  shows "emits m (\<lambda>r es. Enter f \<notin> set es \<and> Enter g \<notin> set es \<and> Enter h \<notin> set es)"
  using assms(1) unfolding only_def
proof (rule emits_weaken)
  fix r :: "exn + 'a" and es
  assume "\<forall>e \<in> set es. entering N e"
  with assms(2-4) show "Enter f \<notin> set es \<and> Enter g \<notin> set es \<and> Enter h \<notin> set es"
    unfolding entering_def by blast
qed

lemma script_enters:
  assumes "only (entering N) (main w)"
  shows "only (entering N) (script w)"
  unfolding script_def
  by (intro only_try only_seq only_print only_ignore only_input assms) (simp_all add: entering_def)

text \<open>
  \<^bold>\<open>C1.\<close>  When the fetch of the project archive fails (the transfer from
  \<open>PROJECT_ZIP_URL\<close> ends with an exception of the class \<^verbatim>\<open>Exception\<close>),
  \<^verbatim>\<open>download_and_extract_project\<close> returns \<open>False\<close> from every state, and neither \<^verbatim>\<open>main\<close>
  nor the script as a whole enters \<^verbatim>\<open>create_conda_environment\<close>,
  \<^verbatim>\<open>create_startup_scripts\<close> or \<^verbatim>\<open>start_docker_services\<close>, from whatever state and with
  whatever the other calls answer.
\<close>

theorem main_aborts_when_fetch_fails:
  assumes "failure (urlretrieve w PROJECT_ZIP_URL) = Some e" and "isinstance_Exception e"
  shows "(\<exists>s'. download_and_extract_project w s = (Inr False, s')) \<and>
         emits (main w) (\<lambda>r es. Enter ''create_conda_environment'' \<notin> set es \<and>
                                 Enter ''create_startup_scripts'' \<notin> set es \<and>
                                 Enter ''start_docker_services'' \<notin> set es) \<and>
         emits (script w) (\<lambda>r es. Enter ''create_conda_environment'' \<notin> set es \<and>
                                 Enter ''create_startup_scripts'' \<notin> set es \<and>
                                 Enter ''start_docker_services'' \<notin> set es)"
proof (intro conjI)
  let ?N = "{''main'', ''is_admin'', ''restart_as_admin'', ''check_docker_installed'',
           ''install_docker'', ''check_conda_installed'', ''install_miniconda'',
           ''download_file'', ''download_and_extract_project''}"
  have later: "''create_conda_environment'' \<notin> ?N" "''create_startup_scripts'' \<notin> ?N"
    "''start_docker_services'' \<notin> ?N"
    by simp_all
  show "\<exists>s'. download_and_extract_project w s = (Inr False, s')"
    using materializer_fetch_failure [OF assms, of s]
    by (cases "download_and_extract_project w s") auto
  have m: "only (entering ?N) (main w)"
    by (rule main_fetch_failure [OF assms])
  then show "emits (main w) (\<lambda>r es. Enter ''create_conda_environment'' \<notin> set es \<and>
                                 Enter ''create_startup_scripts'' \<notin> set es \<and>
                                 Enter ''start_docker_services'' \<notin> set es)"
    using later by (rule never_enters)
  from m have "only (entering ?N) (script w)"
    by (rule script_enters)
  then show "emits (script w) (\<lambda>r es. Enter ''create_conda_environment'' \<notin> set es \<and>
                                 Enter ''create_startup_scripts'' \<notin> set es \<and>
                                 Enter ''start_docker_services'' \<notin> set es)"
    using later by (rule never_enters)
qed

theorem main_aborts_when_fetch_fails_witness:
  "(\<exists>s'. download_and_extract_project offline_world demo_state = (Inr False, s')) \<and>
   emits (main offline_world) (\<lambda>r es. Enter ''create_conda_environment'' \<notin> set es \<and>
                                 Enter ''create_startup_scripts'' \<notin> set es \<and>
                                 Enter ''start_docker_services'' \<notin> set es) \<and>
   emits (script offline_world) (\<lambda>r es. Enter ''create_conda_environment'' \<notin> set es \<and>
                                 Enter ''create_startup_scripts'' \<notin> set es \<and>
                                 Enter ''start_docker_services'' \<notin> set es)"
  using main_aborts_when_fetch_fails
    [of offline_world "URLError ''getaddrinfo failed''" demo_state]
  by (simp add: offline_world_def)

subsection \<open>The privilege gate\<close>

lemma gate_steps:
  assumes "\<forall>v. IsUserAnAdmin w = Inr v \<longrightarrow> v = 0"
  shows "main w s =
           ((case ShellExecuteW w ''runas'' (sys_executable w) (str_join '' '' (sys_argv w)) of
               Inl e \<Rightarrow> Inl e
             | Inr h \<Rightarrow> Inl (SystemExit 0)),
            s\<lparr>console := console s @
               [Enter ''main'', Enter ''is_admin'',
                Print ''This installer requires administrator privileges.'',
                Print ''Restarting with admin rights...'',
                Enter ''restart_as_admin'',
                ShellExecute ''runas'' (sys_executable w) (str_join '' '' (sys_argv w))]\<rparr>)"
  using assms
  by (cases "IsUserAnAdmin w";
      cases "ShellExecuteW w ''runas'' (sys_executable w) (str_join '' '' (sys_argv w))")
     (simp_all add: main_def is_admin_def restart_as_admin_def shell_execute_def sys_exit_def
      monad_defs catch_all_def)

text \<open>
  \<^bold>\<open>X1.\<close>  When the process is not elevated (\<^verbatim>\<open>IsUserAnAdmin\<close> answers \<open>0\<close>, or raises, which
  \<^verbatim>\<open>is_admin\<close> turns into \<open>False\<close>), \<^verbatim>\<open>main\<close> prints its two lines, calls \<^verbatim>\<open>ShellExecuteW\<close>
  with the verb \<^verbatim>\<open>runas\<close>, the running executable and the argument vector joined by
  blanks, and ends there: with \<^verbatim>\<open>SystemExit(0)\<close> when the call returns, with the call's
  exception when it raises.  The console holds nothing after the \<^verbatim>\<open>ShellExecuteW\<close> call,
  and the rest of the state is as it was: no later step of the workflow has run.
\<close>

theorem unprivileged_run_stops_at_the_gate:
  assumes "\<forall>v. IsUserAnAdmin w = Inr v \<longrightarrow> v = 0"
  shows "main w s =
           ((case ShellExecuteW w ''runas'' (sys_executable w) (str_join '' '' (sys_argv w)) of
               Inl e \<Rightarrow> Inl e
             | Inr h \<Rightarrow> Inl (SystemExit 0)),
            s\<lparr>console := console s @
               [Enter ''main'', Enter ''is_admin'',
                Print ''This installer requires administrator privileges.'',
                Print ''Restarting with admin rights...'',
                Enter ''restart_as_admin'',
                ShellExecute ''runas'' (sys_executable w) (str_join '' '' (sys_argv w))]\<rparr>)"
  using assms by (rule gate_steps)

theorem unprivileged_run_stops_at_the_gate_witness:
  "main unprivileged_world demo_state =
     (Inl (SystemExit 0),
      demo_state\<lparr>console :=
         [Enter ''main'', Enter ''is_admin'',
          Print ''This installer requires administrator privileges.'',
          Print ''Restarting with admin rights...'',
          Enter ''restart_as_admin'',
          ShellExecute ''runas'' ''python.exe'' ''installer.py --quiet'']\<rparr>)"
  using unprivileged_run_stops_at_the_gate [of unprivileged_world demo_state]
  by (simp add: unprivileged_world_def demo_world_def demo_state_def)

text \<open>
  \<^bold>\<open>C9.\<close>  The relaunch does not hand on the same arguments.  \<^verbatim>\<open>restart_as_admin\<close> joins
  \<^verbatim>\<open>sys.argv\<close> with blanks and quotes nothing, so an argument that holds a blank is not
  told apart from two arguments.  For the script stored as
  \<^verbatim>\<open>C:/Users/John Smith/installer.py\<close> the unprivileged process stops at the gate as it
  should, but the call it makes to \<^verbatim>\<open>ShellExecuteW\<close> is, character for character, the call
  it makes for the two arguments \<^verbatim>\<open>C:/Users/John\<close> and \<^verbatim>\<open>Smith/installer.py\<close>: the two
  runs end in the same result and the same state, though their argument vectors differ.
\<close>

theorem restart_loses_argument_boundaries:
  "sys_argv blank_path_world \<noteq> sys_argv split_path_world
   \<and> main blank_path_world demo_state =
       (Inl (SystemExit 0),
        demo_state\<lparr>console :=
           [Enter ''main'', Enter ''is_admin'',
            Print ''This installer requires administrator privileges.'',
            Print ''Restarting with admin rights...'',
            Enter ''restart_as_admin'',
            ShellExecute ''runas'' ''python.exe'' ''C:/Users/John Smith/installer.py'']\<rparr>)
   \<and> main split_path_world demo_state = main blank_path_world demo_state"
  using gate_steps [of blank_path_world demo_state] gate_steps [of split_path_world demo_state]
  by (simp add: blank_path_world_def split_path_world_def unprivileged_world_def
      demo_world_def demo_state_def)

subsection \<open>Remediation\<close>

lemma install_docker_steps:
  assumes "download_file w DOCKER_INSTALLER_URL [''DockerDesktopInstaller.exe'']
             (snd (seq (enter ''install_docker'') (print_header ''Installing Docker Desktop'') s))
           = (fetched, s2)"
  shows "install_docker w s =
     (case fetched of
        Inl e \<Rightarrow> (Inl e, s2)
      | Inr downloaded \<Rightarrow>
          if \<not> downloaded then (Inr False, s2)
          else
            (case subprocess_outcome w False
                    [temp_path w [''DockerDesktopInstaller.exe''], ''install'', ''--quiet''] of
               Inl e \<Rightarrow>
                 (Inl e, s2\<lparr>console := console s2 @
                    [Print ''Running Docker Desktop installer...'',
                     Run False [temp_path w [''DockerDesktopInstaller.exe''], ''install'', ''--quiet'']]\<rparr>)
             | Inr result \<Rightarrow>
                 if returncode result = 0 then
                   (Inr True, s2\<lparr>console := console s2 @
                      [Print ''Running Docker Desktop installer...'',
                       Run False [temp_path w [''DockerDesktopInstaller.exe''], ''install'', ''--quiet''],
                       Print ''Docker Desktop installation completed successfully!'']\<rparr>)
                 else
                   (Inr False, s2\<lparr>console := console s2 @
                      [Print ''Running Docker Desktop installer...'',
                       Run False [temp_path w [''DockerDesktopInstaller.exe''], ''install'', ''--quiet''],
                       Print (''Docker Desktop installation failed: '' @ stderr result),
                       Print (''Please install Docker Desktop manually from '' @
                              ''https://www.docker.com/products/docker-desktop''),
                       Input ''Press Enter to continue after installing Docker Desktop manually...'']\<rparr>)))"
  using assms
  by (simp add: install_docker_def Let_def print_header_def monad_defs
      split: sum.splits)

lemma download_file_quiet:
  "only (\<lambda>e. (\<forall>p. e \<noteq> Input p) \<and> (\<forall>sh a. e \<noteq> Run sh a)) (download_file w url d)"
  by (rule only_download_file) (simp_all add: allows_output_def allows_retrieve_def)


lemma install_miniconda_steps:
  assumes "download_file w MINICONDA_INSTALLER_URL [''Miniconda3_Installer.exe'']
             (snd (seq (enter ''install_miniconda'') (print_header ''Installing Miniconda'') s))
           = (fetched, s2)"
  shows "install_miniconda w s =
     (case fetched of
        Inl e \<Rightarrow> (Inl e, s2)
      | Inr downloaded \<Rightarrow>
          if \<not> downloaded then (Inr False, s2)
          else
            (case subprocess_outcome w False
                    [temp_path w [''Miniconda3_Installer.exe''], ''/InstallationType=JustMe'',
                     ''/RegisterPython=0'', ''/S'', ''/D=%UserProfile%'' @ backslash @ ''Miniconda3''] of
               Inl e \<Rightarrow>
                 (Inl e, s2\<lparr>console := console s2 @
                    [Print ''Running Miniconda installer...'',
                     Run False [temp_path w [''Miniconda3_Installer.exe''], ''/InstallationType=JustMe'',
                       ''/RegisterPython=0'', ''/S'', ''/D=%UserProfile%'' @ backslash @ ''Miniconda3'']]\<rparr>)
             | Inr result \<Rightarrow>
                 if returncode result = 0 then
                   (Inr True, s2\<lparr>console := console s2 @
                      [Print ''Running Miniconda installer...'',
                       Run False [temp_path w [''Miniconda3_Installer.exe''], ''/InstallationType=JustMe'',
                         ''/RegisterPython=0'', ''/S'', ''/D=%UserProfile%'' @ backslash @ ''Miniconda3''],
                       Print ''Miniconda installation completed successfully!''],
                      environ_PATH :=
                        os_path_join (environ_USERPROFILE w) ''Miniconda3'' @ '';'' @
                        os_path_join (os_path_join (environ_USERPROFILE w) ''Miniconda3'') ''Scripts'' @
                        '';'' @ environ_PATH s2\<rparr>)
                 else
                   (Inr False, s2\<lparr>console := console s2 @
                      [Print ''Running Miniconda installer...'',
                       Run False [temp_path w [''Miniconda3_Installer.exe''], ''/InstallationType=JustMe'',
                         ''/RegisterPython=0'', ''/S'', ''/D=%UserProfile%'' @ backslash @ ''Miniconda3''],
                       Print (''Miniconda installation failed: '' @ stderr result),
                       Print (''Please install Miniconda manually from '' @
                              ''https://docs.conda.io/en/latest/miniconda.html''),
                       Input ''Press Enter to continue after installing Miniconda manually...'']\<rparr>)))"
  using assms
  by (simp add: install_miniconda_def Let_def print_header_def monad_defs
      split: sum.splits)

lemma emits_bind_prefix:
  assumes "only P m"
    and "\<And>v. emits (f v) Q"
    and "\<And>r es1 es2. \<forall>e \<in> set es1. P e \<Longrightarrow> Q r es2 \<Longrightarrow> Q r (es1 @ es2)"
    and "\<And>e es. \<forall>x \<in> set es. P x \<Longrightarrow> Q (Inl e) es"
  shows "emits (bind m f) Q"
proof (rule emits_bind [where QA = "\<lambda>r es. \<forall>e \<in> set es. P e"])
  show "emits m (\<lambda>r es. \<forall>e \<in> set es. P e)"
    using assms(1) by (simp add: only_def)
next
  fix e es assume "\<forall>e \<in> set es. P e"
  then show "Q (Inl e) es" by (rule assms(4))
next
  fix v es1 assume "\<forall>e \<in> set es1. P e"
  then show "emits (f v) (\<lambda>r es2. Q r (es1 @ es2))"
    using assms(2) [of v] assms(3) by (auto elim!: emits_weaken)
qed

lemma emits_seq_prefix:
  assumes "only P m"
    and "emits n Q"
    and "\<And>r es1 es2. \<forall>e \<in> set es1. P e \<Longrightarrow> Q r es2 \<Longrightarrow> Q r (es1 @ es2)"
    and "\<And>e es. \<forall>x \<in> set es. P x \<Longrightarrow> Q (Inl e) es"
  shows "emits (seq m n) Q"
  unfolding seq_def using assms by (rule emits_bind_prefix)

lemma emits_if:
  "(c \<Longrightarrow> emits a Q) \<Longrightarrow> (\<not> c \<Longrightarrow> emits b Q) \<Longrightarrow> emits (if c then a else b) Q"
  by simp

lemma emits_enter_first:
  assumes "only (\<lambda>e. True) m"
  shows "emits (seq (enter f) m) (\<lambda>r es. Enter f \<in> set es)"
  unfolding emits_def
proof
  fix s
  from assms have "\<exists>es. console (snd (m t)) = console t @ es" for t
    unfolding only_def emits_def by simp
  from this [of "s\<lparr>console := console s @ [Enter f]\<rparr>"] obtain es where
    "console (snd (m (s\<lparr>console := console s @ [Enter f]\<rparr>))) = (console s @ [Enter f]) @ es"
    by auto
  then show "\<exists>es. console (snd (seq (enter f) m s)) = console s @ es \<and>
      Enter f \<in> set es"
    by simp
qed


lemma emits_then_extends:
  assumes "emits m (\<lambda>r es. a \<in> set es)" and "\<And>v. only (\<lambda>e. True) (f v)"
  shows "emits (bind m f) (\<lambda>r es. a \<in> set es)"
proof (rule emits_bind [OF assms(1)])
  fix v es1 assume "a \<in> set es1"
  moreover have "emits (f v) (\<lambda>r es. \<forall>e \<in> set es. True)"
    using assms(2) [of v] by (simp add: only_def)
  ultimately show "emits (f v) (\<lambda>r es2. a \<in> set (es1 @ es2))"
    by (auto elim!: emits_weaken)
qed

lemma install_docker_prompt:
  "emits (install_docker w)
     (\<lambda>r es. Input ''Press Enter to continue after installing Docker Desktop manually...'' \<in> set es
        \<longrightarrow> r = Inr False)"
  unfolding emits_def
proof
  fix s
  let ?s0 = "snd (seq (enter ''install_docker'') (print_header ''Installing Docker Desktop'') s)"
  obtain fetched s2 where f: "download_file w DOCKER_INSTALLER_URL [''DockerDesktopInstaller.exe'']
      ?s0 = (fetched, s2)"
    by (cases "download_file w DOCKER_INSTALLER_URL [''DockerDesktopInstaller.exe''] ?s0") auto
  from download_file_quiet [of w DOCKER_INSTALLER_URL "[''DockerDesktopInstaller.exe'']"]
  obtain esd where esd: "console s2 = console ?s0 @ esd" "\<forall>e \<in> set esd. \<forall>p. e \<noteq> Input p"
    unfolding only_def emits_def using f by (metis snd_conv)
  have s0: "console ?s0 = console s @
      [Enter ''install_docker'', Print (newline @ replicate 29 CHR ''=''),
       Print ''  Installing Docker Desktop'', Print (replicate 29 CHR ''='' @ newline)]"
    by (simp add: print_header_def Let_def monad_defs)
  show "\<exists>es. console (snd (install_docker w s)) = console s @ es \<and>
      (Input ''Press Enter to continue after installing Docker Desktop manually...'' \<in> set es
         \<longrightarrow> fst (install_docker w s) = Inr False)"
    using esd s0 unfolding install_docker_steps [OF f]
    by (auto split: sum.splits)
qed


lemma install_miniconda_prompt:
  "emits (install_miniconda w)
     (\<lambda>r es. Input ''Press Enter to continue after installing Miniconda manually...'' \<in> set es
        \<longrightarrow> r = Inr False)"
  unfolding emits_def
proof
  fix s
  let ?s0 = "snd (seq (enter ''install_miniconda'') (print_header ''Installing Miniconda'') s)"
  obtain fetched s2 where f: "download_file w MINICONDA_INSTALLER_URL [''Miniconda3_Installer.exe'']
      ?s0 = (fetched, s2)"
    by (cases "download_file w MINICONDA_INSTALLER_URL [''Miniconda3_Installer.exe''] ?s0") auto
  from download_file_quiet [of w MINICONDA_INSTALLER_URL "[''Miniconda3_Installer.exe'']"]
  obtain esd where esd: "console s2 = console ?s0 @ esd" "\<forall>e \<in> set esd. \<forall>p. e \<noteq> Input p"
    unfolding only_def emits_def using f by (metis snd_conv)
  have s0: "console ?s0 = console s @
      [Enter ''install_miniconda'', Print (newline @ replicate 24 CHR ''=''),
       Print ''  Installing Miniconda'', Print (replicate 24 CHR ''='' @ newline)]"
    by (simp add: print_header_def Let_def monad_defs)
  show "\<exists>es. console (snd (install_miniconda w s)) = console s @ es \<and>
      (Input ''Press Enter to continue after installing Miniconda manually...'' \<in> set es
         \<longrightarrow> fst (install_miniconda w s) = Inr False)"
    using esd s0 unfolding install_miniconda_steps [OF f]
    by (auto split: sum.splits)
qed

lemma goes_on:
  fixes inst :: "bool prog" and nxt :: "unit prog"
  assumes inst: "emits inst (\<lambda>r es. Input p \<in> set es \<longrightarrow> r = Inr False)"
    and nxt: "emits nxt (\<lambda>r es. b \<in> set es)"
  shows "emits (seq (if \<not> c then seq (print l1) (ignore inst) else print l2) nxt)
           (\<lambda>r es. Input p \<in> set es \<longrightarrow> b \<in> set es)"
proof (rule emits_seq [where QA = "\<lambda>r es. Input p \<in> set es \<longrightarrow> r = Inr ()"])
  have ign: "emits (ignore inst) (\<lambda>r es. Input p \<in> set es \<longrightarrow> r = Inr ())"
    unfolding ignore_def
    by (rule emits_bind [OF inst]) (auto simp: emits_def ret_def)
  have "emits (seq (print l1) (ignore inst)) (\<lambda>r es. Input p \<in> set es \<longrightarrow> r = Inr ())"
    by (rule emits_seq_prefix [where P = "\<lambda>e. e \<noteq> Input p", OF _ ign])
       (auto intro!: only_intro)
  moreover have "emits (print l2) (\<lambda>r es. Input p \<in> set es \<longrightarrow> r = Inr ())"
    by (simp add: emits_def print_def emit_def)
  ultimately show "emits (if \<not> c then seq (print l1) (ignore inst) else print l2)
      (\<lambda>r es. Input p \<in> set es \<longrightarrow> r = Inr ())"
    by simp
next
  fix e es assume "Input p \<in> set es \<longrightarrow> (Inl e :: exn + unit) = Inr ()"
  then show "Input p \<in> set es \<longrightarrow> b \<in> set es" by simp
next
  fix v :: unit and es1
  show "emits nxt (\<lambda>r es2. Input p \<in> set (es1 @ es2) \<longrightarrow> b \<in> set (es1 @ es2))"
    using nxt by (rule emits_weaken) simp
qed

lemma only_anything [simp]:
  "allows_output (\<lambda>e. True)" "allows_input (\<lambda>e. True)" "allows_retrieve (\<lambda>e. True)"
  by (simp_all add: allows_output_def allows_input_def allows_retrieve_def)

lemma check_conda_entered:
  assumes "\<And>v. only (\<lambda>e. True) (K v)"
  shows "emits (bind (check_conda_installed w) K) (\<lambda>r es. Enter ''check_conda_installed'' \<in> set es)"
  unfolding check_conda_installed_def
  by (intro emits_then_extends emits_enter_first assms) (auto intro!: only_intro)

lemma materializer_entered:
  assumes "\<And>v. only (\<lambda>e. True) (K v)"
  shows "emits (bind (download_and_extract_project w) K)
           (\<lambda>r es. Enter ''download_and_extract_project'' \<in> set es)"
  unfolding download_and_extract_project_def
  by (intro emits_then_extends emits_enter_first assms) (auto intro!: only_intro simp: Let_def)


lemma main_goes_on_after_docker:
  "emits (main w)
     (\<lambda>r es. Input ''Press Enter to continue after installing Docker Desktop manually...'' \<in> set es
        \<longrightarrow> Enter ''check_conda_installed'' \<in> set es)"
proof -
  let ?p = "''Press Enter to continue after installing Docker Desktop manually...''"
  let ?P = "\<lambda>e. e \<noteq> Input ?p"
  let ?Q = "\<lambda>(r :: exn + unit) es. Input ?p \<in> set es \<longrightarrow> Enter ''check_conda_installed'' \<in> set es"
  have cl1: "\<And>r es1 es2. \<forall>e \<in> set es1. ?P e \<Longrightarrow> ?Q r es2 \<Longrightarrow> ?Q r (es1 @ es2)"
    by auto
  have cl2: "\<And>e es. \<forall>x \<in> set es. ?P x \<Longrightarrow> ?Q (Inl e) es"
    by auto
  note stepb = emits_bind_prefix [where P = ?P and Q = ?Q, OF _ _ cl1 cl2]
  note steps = emits_seq_prefix [where P = ?P and Q = ?Q, OF _ _ cl1 cl2]
  have tail: "emits (seq (if \<not> c then seq (print l1) (ignore (install_docker w)) else print l2)
                   (bind (check_conda_installed w) K)) ?Q"
    if "\<And>v. only (\<lambda>e. True) (K v)" for c l1 l2 K
    by (rule goes_on [OF install_docker_prompt check_conda_entered]) (rule that)
  show ?thesis
    unfolding main_def
    by (intro tail steps stepb)
       (auto intro!: only_intro simp: allows_output_def allows_retrieve_def)
qed


lemma main_goes_on_after_miniconda:
  "emits (main w)
     (\<lambda>r es. Input ''Press Enter to continue after installing Miniconda manually...'' \<in> set es
        \<longrightarrow> Enter ''download_and_extract_project'' \<in> set es)"
proof -
  let ?p = "''Press Enter to continue after installing Miniconda manually...''"
  let ?P = "\<lambda>e. e \<noteq> Input ?p"
  let ?Q = "\<lambda>(r :: exn + unit) es.
    Input ?p \<in> set es \<longrightarrow> Enter ''download_and_extract_project'' \<in> set es"
  have cl1: "\<And>r es1 es2. \<forall>e \<in> set es1. ?P e \<Longrightarrow> ?Q r es2 \<Longrightarrow> ?Q r (es1 @ es2)"
    by auto
  have cl2: "\<And>e es. \<forall>x \<in> set es. ?P x \<Longrightarrow> ?Q (Inl e) es"
    by auto
  note stepb = emits_bind_prefix [where P = ?P and Q = ?Q, OF _ _ cl1 cl2]
  note steps = emits_seq_prefix [where P = ?P and Q = ?Q, OF _ _ cl1 cl2]
  have tail: "emits (seq (if \<not> c then seq (print l1) (ignore (install_miniconda w)) else print l2)
                   (bind (download_and_extract_project w) K)) ?Q"
    if "\<And>v. only (\<lambda>e. True) (K v)" for c l1 l2 K
    by (rule goes_on [OF install_miniconda_prompt materializer_entered]) (rule that)
  show ?thesis
    unfolding main_def
    by (intro tail steps stepb)
       (auto intro!: only_intro simp: allows_output_def allows_retrieve_def)
qed


lemmas run_simps = monad_defs bind_fst_snd Let_def print_header_def download_file_def
  urllib_request_urlretrieve_def report_progress_def temp_write_def temp_path_def
  os_path_join_def backslash_def newline_def carriage_return_def dquote_def
  str_int_def str_nat.simps catch_all_def
  PROJECT_ZIP_URL_def DOCKER_INSTALLER_URL_def MINICONDA_INSTALLER_URL_def INSTALL_DIR_def

lemmas world_simps = demo_world_def demo_state_def offline_world_def bare_world_def
  unprivileged_world_def demo_archive_def


subsection \<open>The best-effort steps\<close>

lemma create_conda_environment_fst:
  "fst (create_conda_environment w s) =
     (case subprocess_outcome w True [''conda'', ''env'', ''list''] of
        Inl e \<Rightarrow> Inl e
      | Inr listing \<Rightarrow>
          (case (if sublist ''code_execution_api'' (stdout listing)
                 then subprocess_outcome w True
                        [''conda'', ''env'', ''update'', ''-n'', ''code_execution_api'', ''--file'',
                         os_path_join (INSTALL_DIR w) ''requirements.txt'']
                 else subprocess_outcome w True
                        [''conda'', ''create'', ''-n'', ''code_execution_api'', ''python=3.11'', ''-y'']) of
             Inl e \<Rightarrow> Inl e
           | Inr made \<Rightarrow>
               (case subprocess_outcome w True
                       [''conda'', ''run'', ''-n'', ''code_execution_api'', ''pip'', ''install'', ''-r'',
                        os_path_join (INSTALL_DIR w) ''requirements.txt''] of
                  Inl e \<Rightarrow> Inl e
                | Inr installed \<Rightarrow> Inr True)))"
  by (simp add: create_conda_environment_def Let_def print_header_def monad_defs
      split: sum.splits)

lemma start_docker_services_fst:
  "fst (start_docker_services w s) =
     (case installdir s of
        Some (Dir es) \<Rightarrow>
          (case subprocess_outcome w True [''docker-compose'', ''build''] of
             Inl e \<Rightarrow> Inl e
           | Inr built \<Rightarrow>
               (case subprocess_outcome w True [''docker-compose'', ''up'', ''-d''] of
                  Inl e \<Rightarrow> Inl e
                | Inr started \<Rightarrow> Inr True))
      | _ \<Rightarrow> Inl (OSError ''The system cannot find the file specified''))"
  by (simp add: start_docker_services_def os_chdir_install_def Let_def print_header_def monad_defs
      split: sum.splits option.splits node.splits)

lemma start_docker_services_console:
  "\<exists>es. console (snd (start_docker_services w s)) = console s @ es \<and>
     (Run True [''docker-compose'', ''build''] \<in> set es \<longrightarrow>
        (\<exists>d. installdir s = Some (Dir d)))"
  by (simp add: start_docker_services_def os_chdir_install_def Let_def print_header_def monad_defs
      newline_def split: sum.splits option.splits node.splits)


lemma emits_result:
  assumes "only (\<lambda>e. True) m" and "\<And>s. R (fst (m s))"
  shows "emits m (\<lambda>r es. R r)"
  using assms unfolding only_def emits_def by auto

lemma emits_ignore:
  assumes "emits m (\<lambda>r es. A es \<longrightarrow> (\<exists>v. r = Inr v))"
  shows "emits (ignore m) (\<lambda>r es. A es \<longrightarrow> r = Inr ())"
  unfolding ignore_def
  by (rule emits_bind [OF assms]) (auto simp: emits_def ret_def)

lemma header_printed:
  fixes n :: "'a prog"
  assumes "only (\<lambda>e. True) n"
  shows "emits (seq (print_header m) n) (\<lambda>r es. Print (''  '' @ m) \<in> set es)"
  unfolding emits_def
proof
  fix s :: state
  let ?t = "s\<lparr>console := console s @
      [Print (newline @ replicate (length m + 4) CHR ''=''), Print (''  '' @ m),
       Print (replicate (length m + 4) CHR ''='' @ newline)]\<rparr>"
  from assms have "\<exists>es. console (snd (n t)) = console t @ es" for t :: state
    unfolding only_def emits_def by simp
  from this [of ?t] obtain es where "console (snd (n ?t)) = console ?t @ es"
    by auto
  moreover have "seq (print_header m) n s = n ?t"
    by (simp add: print_header_def Let_def monad_defs)
  ultimately show "\<exists>es. console (snd (seq (print_header m) n s)) = console s @ es \<and>
      Print (''  '' @ m) \<in> set es"
    by simp
qed

lemma seq_then_extends:
  assumes "emits m (\<lambda>r es. a \<in> set es)" and "only (\<lambda>e. True) n"
  shows "emits (seq m n) (\<lambda>r es. a \<in> set es)"
  unfolding seq_def using assms by (intro emits_then_extends) auto

lemma startup_scripts_entered:
  assumes "only (\<lambda>e. True) n"
  shows "emits (seq (ignore (create_startup_scripts w)) n)
           (\<lambda>r es. Enter ''create_startup_scripts'' \<in> set es)"
  unfolding create_startup_scripts_def ignore_def
  by (intro seq_then_extends emits_then_extends emits_enter_first assms)
     (auto intro!: only_intro simp: Let_def)

lemma provision_returns:
  assumes "\<And>args. \<exists>c. subprocess_outcome w True args = Inr c"
  shows "emits (ignore (create_conda_environment w)) (\<lambda>r es. True \<longrightarrow> r = Inr ())"
proof (rule emits_ignore, rule emits_result)
  show "only (\<lambda>e. True) (create_conda_environment w)"
    by (auto intro!: only_intro)
  fix s
  show "True \<longrightarrow> (\<exists>v. fst (create_conda_environment w s) = Inr v)"
    using assms [of "[''conda'', ''env'', ''list'']"]
      assms [of "[''conda'', ''env'', ''update'', ''-n'', ''code_execution_api'', ''--file'',
                         os_path_join (INSTALL_DIR w) ''requirements.txt'']"]
      assms [of "[''conda'', ''create'', ''-n'', ''code_execution_api'', ''python=3.11'', ''-y'']"]
      assms [of "[''conda'', ''run'', ''-n'', ''code_execution_api'', ''pip'', ''install'', ''-r'',
                        os_path_join (INSTALL_DIR w) ''requirements.txt'']"]
    by (auto simp: create_conda_environment_fst)
qed

lemma activation_returns:
  assumes "\<And>args. \<exists>c. subprocess_outcome w True args = Inr c"
  shows "emits (ignore (start_docker_services w))
           (\<lambda>r es. Run True [''docker-compose'', ''build''] \<in> set es \<longrightarrow> r = Inr ())"
proof (rule emits_ignore, unfold emits_def, rule allI)
  fix s
  from start_docker_services_console [of w s] obtain es where
    es: "console (snd (start_docker_services w s)) = console s @ es"
      "Run True [''docker-compose'', ''build''] \<in> set es \<longrightarrow> (\<exists>d. installdir s = Some (Dir d))"
    by blast
  have "Run True [''docker-compose'', ''build''] \<in> set es \<longrightarrow>
      (\<exists>v. fst (start_docker_services w s) = Inr v)"
    using es(2) assms [of "[''docker-compose'', ''build'']"]
      assms [of "[''docker-compose'', ''up'', ''-d'']"]
    by (auto simp: start_docker_services_fst)
  with es(1) show "\<exists>es. console (snd (start_docker_services w s)) = console s @ es \<and>
      (Run True [''docker-compose'', ''build''] \<in> set es \<longrightarrow>
       (\<exists>v. fst (start_docker_services w s) = Inr v))"
    by blast
qed


lemma emits_ret: "Q (Inr v) [] \<Longrightarrow> emits (ret v) Q"
  by (simp add: emits_def ret_def)

lemma emits_ignore_prefix:
  assumes "only P m"
    and "\<And>es. \<forall>e \<in> set es. P e \<Longrightarrow> Q (Inr ()) es"
    and "\<And>e es. \<forall>x \<in> set es. P x \<Longrightarrow> Q (Inl e) es"
  shows "emits (ignore m) Q"
  unfolding ignore_def
proof (rule emits_bind [where QA = "\<lambda>r es. \<forall>e \<in> set es. P e"])
  show "emits m (\<lambda>r es. \<forall>e \<in> set es. P e)"
    using assms(1) by (simp add: only_def)
next
  fix e es assume "\<forall>e \<in> set es. P e"
  then show "Q (Inl e) es" by (rule assms(3))
next
  fix v es1 assume "\<forall>e \<in> set es1. P e"
  then show "emits (ret ()) (\<lambda>r es2. Q r (es1 @ es2))"
    by (simp add: emits_def ret_def assms(2))
qed

lemma main_advances_after_provisioning:
  assumes "\<And>args. \<exists>c. subprocess_outcome w True args = Inr c"
  shows "emits (main w)
     (\<lambda>r es. Run True [''conda'', ''env'', ''list''] \<in> set es
        \<longrightarrow> Enter ''create_startup_scripts'' \<in> set es)"
proof -
  let ?a = "Run True [''conda'', ''env'', ''list'']"
  let ?P = "\<lambda>e. e \<noteq> ?a"
  let ?Q = "\<lambda>(r :: exn + unit) es. ?a \<in> set es \<longrightarrow> Enter ''create_startup_scripts'' \<in> set es"
  have cl1: "\<And>r es1 es2. \<forall>e \<in> set es1. ?P e \<Longrightarrow> ?Q r es2 \<Longrightarrow> ?Q r (es1 @ es2)"
    by auto
  have cl2: "\<And>e es. \<forall>x \<in> set es. ?P x \<Longrightarrow> ?Q (Inl e) es"
    by auto
  have cl3: "\<And>es. \<forall>x \<in> set es. ?P x \<Longrightarrow> ?Q (Inr ()) es"
    by auto
  note stepb = emits_bind_prefix [where P = ?P and Q = ?Q, OF _ _ cl1 cl2]
  note steps = emits_seq_prefix [where P = ?P and Q = ?Q, OF _ _ cl1 cl2]
  note stepi = emits_ignore_prefix [where P = ?P and Q = ?Q, OF _ cl3 cl2]
  have tail: "emits (seq (ignore (create_conda_environment w))
                   (seq (ignore (create_startup_scripts w)) n)) ?Q"
    if "only (\<lambda>e. True) n" for n
  proof (rule emits_seq [OF provision_returns [OF assms]])
    fix v :: unit and es1
    show "emits (seq (ignore (create_startup_scripts w)) n)
        (\<lambda>r es2. ?a \<in> set (es1 @ es2) \<longrightarrow> Enter ''create_startup_scripts'' \<in> set (es1 @ es2))"
      using startup_scripts_entered [OF that] by (rule emits_weaken) simp
  qed simp
  show ?thesis
    unfolding main_def
    by (intro tail emits_if steps stepb stepi)
       (auto intro!: only_intro simp: allows_output_def allows_retrieve_def)
qed


lemma main_advances_after_activation:
  assumes "\<And>args. \<exists>c. subprocess_outcome w True args = Inr c"
  shows "emits (main w)
     (\<lambda>r es. Run True [''docker-compose'', ''build''] \<in> set es
        \<longrightarrow> Print ''  Installation Complete'' \<in> set es)"
proof -
  let ?a = "Run True [''docker-compose'', ''build'']"
  let ?P = "\<lambda>e. e \<noteq> ?a"
  let ?Q = "\<lambda>(r :: exn + unit) es. ?a \<in> set es \<longrightarrow> Print ''  Installation Complete'' \<in> set es"
  have cl1: "\<And>r es1 es2. \<forall>e \<in> set es1. ?P e \<Longrightarrow> ?Q r es2 \<Longrightarrow> ?Q r (es1 @ es2)"
    by auto
  have cl2: "\<And>e es. \<forall>x \<in> set es. ?P x \<Longrightarrow> ?Q (Inl e) es"
    by auto
  have cl3: "\<And>es. \<forall>x \<in> set es. ?P x \<Longrightarrow> ?Q (Inr ()) es"
    by auto
  note stepb = emits_bind_prefix [where P = ?P and Q = ?Q, OF _ _ cl1 cl2]
  note steps = emits_seq_prefix [where P = ?P and Q = ?Q, OF _ _ cl1 cl2]
  note stepi = emits_ignore_prefix [where P = ?P and Q = ?Q, OF _ cl3 cl2]
  have tail: "emits (seq (ignore (start_docker_services w))
                   (seq (print_header ''Installation Complete'') n)) ?Q"
    if "only (\<lambda>e. True) n" for n :: "unit prog"
  proof (rule emits_seq [OF activation_returns [OF assms]])
    fix v :: unit and es1
    show "emits (seq (print_header ''Installation Complete'') n)
        (\<lambda>r es2. ?a \<in> set (es1 @ es2) \<longrightarrow> Print ''  Installation Complete'' \<in> set (es1 @ es2))"
      using header_printed [OF that, of "''Installation Complete''"] by (rule emits_weaken) simp
  qed simp
  show ?thesis
    unfolding main_def
    by (intro tail emits_if steps stepb stepi)
       (auto intro!: only_intro simp: allows_output_def allows_retrieve_def)
qed



end
